theory Spec2Isabelle
  imports Complex_Main "HOL-Library.Word"
begin

section \<open>Aquasense water-quality node: embedding of \<open>src/main.cpp\<close>\<close>

text \<open>
  The sketch is a single-threaded polling loop over global variables.  The globals become
  one record, every function of the sketch becomes a function on that record, and the
  hardware (buttons, ADC, temperature probe, WiFi, Firebase) is an \<open>inputs\<close> record that
  is read once per loop iteration.  What the sketch sends to the LCD, the serial port, the
  transport and the sleep controller is appended to a trace, each entry stamped with the
  value of \<open>millis()\<close> at that moment.

  Numbers: \<open>unsigned long\<close> is 32 bits wide on the ESP32 and is a \<open>32 word\<close>, so that
  \<open>millis() - lastRead\<close> wraps as it does on the chip.  \<open>float\<close> and \<open>double\<close> values are
  modelled as \<open>real\<close>: the formulas are the source's, rounding, infinities and NaN are
  left out.  \<open>currentMenuItem\<close> is an \<open>int\<close>; the buffer cursors only take the values
  0, 1, 2 and are \<open>nat\<close>.

  \<open>setup()\<close> (display, WiFi and Firebase start-up, \<open>loadCalibration\<close>) is not part of the
  embedding: of the globals it only sets the calibration coefficients, which the theorems
  leave arbitrary, and the LCD activity timestamp.
\<close>

type_synonym ulong = "32 word"

datatype pin = PH_PIN | TURB_PIN | TDS_PIN

text \<open>The JSON object handed to \<open>Firebase.setJSON\<close> (fields \<open>t, p, n, d, ec\<close>; the values
  are the numbers before they are printed with one decimal).\<close>

record payload =
  t_field :: real
  p_field :: real
  n_field :: real
  d_field :: real
  ec_field :: real

datatype event =
    LcdClear
  | LcdHome
  | LcdSetCursor nat nat
  | LcdPrint string
  | LcdPrintFloat real
  | LcdBacklight
  | LcdNoBacklight
  | Delay ulong
  | SerialPrintln string
  | SerialAdcWarning int pin
  | SerialPath ulong
  | SetJSON ulong payload bool
  | DeepSleepStart

text \<open>What the hardware returns during one loop iteration.  A button reads \<open>True\<close> when
  its pin is HIGH (released) and \<open>False\<close> when it is LOW (pressed).\<close>

record inputs =
  btn_up :: bool
  btn_down :: bool
  btn_select :: bool
  btn_back :: bool
  analogRead :: "pin \<Rightarrow> int"
  probe :: real
  wifi_connected :: bool
  firebase_ready :: bool
  setjson_ok :: bool

record device =
  clock :: ulong
  currentMenuItem :: int
  inSubMenu :: bool
  lastButtonPress :: ulong
  lastLCDActivity :: ulong
  lcdBacklightOn :: bool
  ph_slope :: real
  ph_intercept :: real
  turb_slope :: real
  turb_intercept :: real
  tds_k :: real
  lastRead :: ulong
  phBuf :: "real list"
  turbBuf :: "real list"
  tdsBuf :: "real list"
  phPtr :: nat
  turbPtr :: nat
  tdsPtr :: nat
  powerSaveMode :: bool
  asleep :: bool
  trace :: "(ulong \<times> event) list"

definition menuItems :: "string list" where
  "menuItems = [''Temperature'', ''pH'', ''Turbidity'', ''TDS'', ''EC'', ''Power Save'', ''Send Data'']"

definition menuItemsCount :: int where
  "menuItemsCount = 7"

text \<open>The globals as their initialisers leave them (arrays of static storage are zero).\<close>

definition power_on :: device where
  "power_on = \<lparr> clock = 0, currentMenuItem = 0, inSubMenu = False, lastButtonPress = 0,
     lastLCDActivity = 0, lcdBacklightOn = True,
     ph_slope = -1.5, ph_intercept = 7.0, turb_slope = -50.0, turb_intercept = 100.0,
     tds_k = 0.5, lastRead = 0,
     phBuf = [0, 0, 0], turbBuf = [0, 0, 0], tdsBuf = [0, 0, 0],
     phPtr = 0, turbPtr = 0, tdsPtr = 0,
     powerSaveMode = False, asleep = False, trace = [] \<rparr>"

subsection \<open>Clock and outputs\<close>

definition millis :: "device \<Rightarrow> ulong" where
  "millis s = clock s"

definition emit :: "event \<Rightarrow> device \<Rightarrow> device" where
  "emit e s = s\<lparr>trace := trace s @ [(clock s, e)]\<rparr>"

definition delay :: "ulong \<Rightarrow> device \<Rightarrow> device" where
  "delay n s = (emit (Delay n) s)\<lparr>clock := clock s + n\<rparr>"

text \<open>Time that passes outside \<open>delay\<close> (between two loop iterations).\<close>

definition pass :: "ulong \<Rightarrow> device \<Rightarrow> device" where
  "pass n s = s\<lparr>clock := clock s + n\<rparr>"

text \<open>Modelled from the spec: \<open>constrain\<close> is a macro of the Arduino core and is not
  defined under \<open>src/\<close>; the spec says "clamp to [lo, hi]".  The definition is the
  core's \<open>((amt)<(low)?(low):((amt)>(high)?(high):(amt)))\<close>.\<close>

definition constrain :: "real \<Rightarrow> real \<Rightarrow> real \<Rightarrow> real" where
  "constrain amt low high = (if amt < low then low else if amt > high then high else amt)"

subsection \<open>Power management\<close>

definition enterDeepSleep :: "device \<Rightarrow> device" where
  "enterDeepSleep s =
     (let s1 = emit LcdClear s;
          s2 = emit (LcdPrint ''Sleeping...'') s1;
          s3 = emit (LcdSetCursor 0 1) s2;
          s4 = emit (LcdPrint ''Press SELECT to wake'') s3;
          s5 = delay 1000 s4;
          s6 = emit DeepSleepStart s5
      in s6\<lparr>asleep := True\<rparr>)"

definition managePower :: "device \<Rightarrow> device" where
  "managePower s =
     (if powerSaveMode s then
        (let s1 = (if lcdBacklightOn s \<and> millis s - lastLCDActivity s > 30000
                   then (emit LcdNoBacklight s)\<lparr>lcdBacklightOn := False\<rparr> else s)
         in if millis s1 - lastRead s1 > 300000 then enterDeepSleep s1 else s1)
      else s)"

definition wakeLCD :: "device \<Rightarrow> device" where
  "wakeLCD s =
     (let s1 = (if \<not> lcdBacklightOn s
                then (emit LcdBacklight s)\<lparr>lcdBacklightOn := True\<rparr> else s)
      in s1\<lparr>lastLCDActivity := millis s1\<rparr>)"

subsection \<open>Sensors\<close>

text \<open>\<open>for (int i = 0; i < 3; i++) sum += buf[i];\<close>\<close>

definition sum3 :: "real list \<Rightarrow> real" where
  "sum3 buf = fold (\<lambda>i sum. sum + buf ! i) [0, 1, 2] 0"

text \<open>\<open>readVoltage(pin, buf, ptr)\<close>: the array and the cursor behind the two pointers are
  passed in and returned.  The result is the returned float, the array, the cursor and
  the device (for the warning on the serial port).\<close>

definition readVoltage ::
  "inputs \<Rightarrow> pin \<Rightarrow> real list \<Rightarrow> nat \<Rightarrow> device \<Rightarrow> real \<times> real list \<times> nat \<times> device" where
  "readVoltage env pin buf ptr s =
     (let adc = analogRead env pin in
      if adc = 0 \<or> adc = 4095 then (-1, buf, ptr, emit (SerialAdcWarning adc pin) s)
      else
        (let v = real_of_int adc * (3.3 / 4095);
             buf1 = buf[ptr := v];
             ptr1 = (ptr + 1) mod 3
         in (sum3 buf1 / 3, buf1, ptr1, s)))"

definition getTemp :: "inputs \<Rightarrow> device \<Rightarrow> real \<times> device" where
  "getTemp env s =
     (let t = probe env in
      if t = -127 \<or> t = 85
      then (25, emit (SerialPrintln ''WARNING: DS18B20 sensor error, returning default temp 25C.'') s)
      else (t, s))"

definition getPH :: "inputs \<Rightarrow> device \<Rightarrow> real \<times> device" where
  "getPH env s =
     (let (v, buf1, ptr1, s1) = readVoltage env PH_PIN (phBuf s) (phPtr s) s;
          s2 = s1\<lparr>phBuf := buf1, phPtr := ptr1\<rparr>
      in if v < 0 then (-1, s2)
         else
           (let ph = ph_slope s2 * v + ph_intercept s2;
                (currentTempC, s3) = getTemp env s2;
                ph1 = ph + 0.0198 * (currentTempC - 25)
            in (constrain ph1 0 14, s3)))"

definition getTurbidity :: "inputs \<Rightarrow> device \<Rightarrow> real \<times> device" where
  "getTurbidity env s =
     (let (v, buf1, ptr1, s1) = readVoltage env TURB_PIN (turbBuf s) (turbPtr s) s;
          s2 = s1\<lparr>turbBuf := buf1, turbPtr := ptr1\<rparr>
      in if v < 0 then (-1, s2)
         else
           (let ntu = turb_slope s2 * v + turb_intercept s2
            in (constrain ntu 0 150, s2)))"

definition getTDS :: "inputs \<Rightarrow> device \<Rightarrow> real \<times> device" where
  "getTDS env s =
     (let (v, buf1, ptr1, s1) = readVoltage env TDS_PIN (tdsBuf s) (tdsPtr s) s;
          s2 = s1\<lparr>tdsBuf := buf1, tdsPtr := ptr1\<rparr>
      in if v < 0 then (-1, s2)
         else
           (let (t, s3) = getTemp env s2;
                tds = v * tds_k s3 * (1 + 0.02 * (t - 25))
            in (tds, s3)))"

definition getEC :: "inputs \<Rightarrow> device \<Rightarrow> real \<times> device" where
  "getEC env s =
     (let (tds, s1) = getTDS env s
      in if tds < 0 then (-1, s1) else (tds * 2, s1))"

subsection \<open>Display\<close>

definition displayValue :: "string \<Rightarrow> real \<Rightarrow> string \<Rightarrow> device \<Rightarrow> device" where
  "displayValue name val unit s =
     (let s1 = wakeLCD s;
          s2 = emit LcdClear s1;
          s3 = emit LcdHome s2;
          s4 = emit (LcdPrint name) s3;
          s5 = emit (LcdSetCursor 0 1) s4
      in if val < 0 then emit (LcdPrint ''Error'') s5
         else if name = ''pH'' then emit (LcdPrintFloat val) (emit (LcdPrint ''pH: '') s5)
         else emit (LcdPrint unit) (emit (LcdPrint '' '') (emit (LcdPrintFloat val) s5)))"

definition displayMenu :: "device \<Rightarrow> device" where
  "displayMenu s =
     (let s1 = wakeLCD s;
          s2 = emit LcdClear s1;
          s3 = emit LcdHome s2;
          s4 = emit (LcdPrint ''>'') s3;
          s5 = emit (LcdPrint (menuItems ! nat (currentMenuItem s4))) s4;
          s6 = emit (LcdSetCursor 0 1) s5
      in if currentMenuItem s6 < menuItemsCount - 1
         then emit (LcdPrint (menuItems ! nat (currentMenuItem s6 + 1))) (emit (LcdPrint '' '') s6)
         else emit (LcdPrint (menuItems ! 0)) (emit (LcdPrint '' '') s6))"

subsection \<open>Upload\<close>

definition msg_attempt :: string where
  "msg_attempt = ''Attempting to send data to Firebase...''"

definition msg_not_ready :: string where
  "msg_not_ready = ''Firebase send skipped: WiFi not connected or Firebase not ready.''"

definition msg_sensor_error :: string where
  "msg_sensor_error = ''Skipping Firebase send due to sensor error values.''"

definition msg_write_ok :: string where
  "msg_write_ok = ''Realtime Database write successful!''"

definition msg_write_failed :: string where
  "msg_write_failed = ''Realtime Database write FAILED: ''"

definition sendToFirebase :: "inputs \<Rightarrow> device \<Rightarrow> device" where
  "sendToFirebase env s =
     (let s0 = emit (SerialPrintln msg_attempt) s in
      if \<not> wifi_connected env \<or> \<not> firebase_ready env
      then emit (SerialPrintln msg_not_ready) s0
      else
        (let (temperature, s1) = getTemp env s0;
             (ph, s2) = getPH env s1;
             (turbidity, s3) = getTurbidity env s2;
             (tds, s4) = getTDS env s3;
             ec = (if tds < 0 then -1 else tds * 2)
         in if temperature < 0 \<or> ph < 0 \<or> turbidity < 0 \<or> tds < 0 \<or> ec < 0
            then emit (SerialPrintln msg_sensor_error) s4
            else
              (let data = \<lparr> t_field = temperature, p_field = ph, n_field = turbidity,
                            d_field = tds, ec_field = ec \<rparr>;
                   databasePath = millis s4 div 1000;
                   s5 = emit (SerialPath databasePath) s4;
                   s6 = emit (SetJSON databasePath data (setjson_ok env)) s5
               in if setjson_ok env then emit (SerialPrintln msg_write_ok) s6
                  else emit (SerialPrintln msg_write_failed) s6)))"

subsection \<open>Menu\<close>

text \<open>The \<open>switch\<close> on \<open>currentMenuItem\<close> under the Select button.\<close>

definition selectItem :: "inputs \<Rightarrow> device \<Rightarrow> device" where
  "selectItem env s =
     (if currentMenuItem s = 0 then
        (let (v, s1) = getTemp env s in displayValue ''Temp'' v ''C'' s1)
      else if currentMenuItem s = 1 then
        (let (v, s1) = getPH env s in displayValue ''pH'' v '''' s1)
      else if currentMenuItem s = 2 then
        (let (v, s1) = getTurbidity env s in displayValue ''Turbidity'' v ''NTU'' s1)
      else if currentMenuItem s = 3 then
        (let (v, s1) = getTDS env s in displayValue ''TDS'' v ''ppm'' s1)
      else if currentMenuItem s = 4 then
        (let (v, s1) = getEC env s in displayValue ''EC'' v ''uS/cm'' s1)
      else if currentMenuItem s = 5 then
        (let s1 = s\<lparr>powerSaveMode := \<not> powerSaveMode s\<rparr>;
             s2 = emit LcdClear s1;
             s3 = emit (LcdPrint ''Power Save: '') s2;
             s4 = emit (LcdPrint (if powerSaveMode s3 then ''ON'' else ''OFF'')) s3;
             s5 = delay 1000 s4
         in displayMenu s5)
      else if currentMenuItem s = 6 then
        (let s1 = emit LcdClear s;
             s2 = emit (LcdPrint ''Sending data...'') s1;
             s3 = sendToFirebase env s2;
             s4 = emit LcdClear s3;
             s5 = emit (LcdPrint ''Data sent!'') s4;
             s6 = delay 1000 s5
         in displayMenu s6)
      else s)"

definition handleMenu :: "inputs \<Rightarrow> device \<Rightarrow> device" where
  "handleMenu env s =
     (if millis s - lastButtonPress s < 200 then s
      else
        (let (buttonPressed, s1) =
           (if \<not> btn_up env then
              (True, displayMenu (s\<lparr>currentMenuItem :=
                 (if currentMenuItem s > 0 then currentMenuItem s - 1 else menuItemsCount - 1)\<rparr>))
            else if \<not> btn_down env then
              (True, displayMenu (s\<lparr>currentMenuItem :=
                 (if currentMenuItem s < menuItemsCount - 1 then currentMenuItem s + 1 else 0)\<rparr>))
            else if \<not> btn_select env then (True, selectItem env s)
            else if \<not> btn_back env then (True, displayMenu s)
            else (False, s))
         in if buttonPressed then s1\<lparr>lastButtonPress := millis s1\<rparr> else s1))"

subsection \<open>Main loop\<close>

text \<open>The scheduled upload at the end of \<open>loop()\<close>.\<close>

definition autoSend :: "inputs \<Rightarrow> device \<Rightarrow> device" where
  "autoSend env s =
     (if millis s - lastRead s \<ge> 15000 then
        (let s1 = s\<lparr>lastRead := millis s\<rparr>
         in if \<not> powerSaveMode s1 then sendToFirebase env s1 else s1)
      else s)"

text \<open>One iteration of \<open>loop()\<close>.  \<open>esp_deep_sleep_start()\<close> does not return: once the device
  is asleep nothing more of the sketch runs.\<close>

definition loop :: "inputs \<Rightarrow> device \<Rightarrow> device" where
  "loop env s =
     (if asleep s then s
      else
        (let s1 = handleMenu env s;
             s2 = managePower s1
         in if asleep s2 then s2 else delay 100 (autoSend env s2)))"

text \<open>A run: before each iteration some time passes, then the iteration reads the
  hardware.\<close>

fun run :: "(ulong \<times> inputs) list \<Rightarrow> device \<Rightarrow> device" where
  "run [] s = s"
| "run ((dt, env) # rest) s = run rest (loop env (pass dt s))"

subsection \<open>Observations on the trace\<close>

definition attempts :: "(ulong \<times> event) list \<Rightarrow> nat" where
  "attempts tr = length (filter (\<lambda>te. snd te = SerialPrintln msg_attempt) tr)"

fun last_attempt :: "(ulong \<times> event) list \<Rightarrow> ulong option" where
  "last_attempt [] = None"
| "last_attempt ((t, e) # rest) =
     (case last_attempt rest of
        Some t' \<Rightarrow> Some t'
      | None \<Rightarrow> (if e = SerialPrintln msg_attempt then Some t else None))"

definition writes :: "(ulong \<times> event) list \<Rightarrow> (ulong \<times> event) list" where
  "writes tr = filter (\<lambda>te. case snd te of SetJSON p d ok \<Rightarrow> True | _ \<Rightarrow> False) tr"

subsection \<open>Shape of the rolling buffers\<close>

text \<open>Each array has three slots and each cursor indexes one of them; the writes
  \<open>buf[*ptr] = v\<close> and the reads \<open>buf[i]\<close> stay inside the arrays as long as this holds.\<close>

definition buffers_ok :: "device \<Rightarrow> bool" where
  "buffers_ok s =
     (length (phBuf s) = 3 \<and> phPtr s < 3 \<and> length (turbBuf s) = 3 \<and> turbPtr s < 3 \<and>
      length (tdsBuf s) = 3 \<and> tdsPtr s < 3)"

subsection \<open>Deep sleep on the trace, and a fresh timestamp\<close>

text \<open>The number of times \<open>esp_deep_sleep_start()\<close> was called.\<close>

definition sleep_starts :: "(ulong \<times> event) list \<Rightarrow> nat" where
  "sleep_starts tr = length (filter (\<lambda>te. snd te = DeepSleepStart) tr)"

text \<open>The device is awake and \<open>lastRead\<close> is at most 15.1 s behind the clock.\<close>

definition recently_read :: "device \<Rightarrow> bool" where
  "recently_read s = (\<not> asleep s \<and> unat (clock s - lastRead s) \<le> 15100)"

subsection \<open>Scenarios\<close>

text \<open>Concrete hardware readings and runs from the power-on state, used to exercise the
  theorems below.\<close>

definition env_idle :: inputs where
  "env_idle = \<lparr> btn_up = True, btn_down = True, btn_select = True, btn_back = True,
     analogRead = (\<lambda>p. 2047), probe = 25, wifi_connected = True, firebase_ready = True,
     setjson_ok = True \<rparr>"

definition press_up :: inputs where
  "press_up = env_idle\<lparr>btn_up := False\<rparr>"

definition press_down :: inputs where
  "press_down = env_idle\<lparr>btn_down := False\<rparr>"

definition press_select :: inputs where
  "press_select = env_idle\<lparr>btn_select := False\<rparr>"

definition sleepy_ticks :: "(ulong \<times> inputs) list" where
  "sleepy_ticks = [(3000, press_up), (200, press_up), (200, press_select), (300001, env_idle)]"

definition about_to_sleep :: device where
  "about_to_sleep = pass 300001 (run [(3000, press_up), (200, press_up), (200, press_select)] power_on)"

definition manual_ticks :: "(ulong \<times> inputs) list" where
  "manual_ticks = [(3000, press_up), (8900, press_select)]"

definition after_manual :: device where
  "after_manual = pass 1900 (run manual_ticks power_on)"

definition power_save_on :: device where
  "power_save_on = run [(3000, press_up), (200, press_up), (200, press_select)] power_on"

definition at_send_item :: device where
  "at_send_item = pass 200 (run [(3000, press_up)] power_on)"

definition power_save_at_send :: device where
  "power_save_at_send =
     pass 200 (run [(3000, press_up), (200, press_up), (200, press_select), (200, press_down)] power_on)"

definition no_wifi :: inputs where
  "no_wifi = press_select\<lparr>wifi_connected := False\<rparr>"

definition bad_sensor :: inputs where
  "bad_sensor = press_select\<lparr>analogRead := (\<lambda>p. if p = TDS_PIN then 4095 else 2047)\<rparr>"

definition write_fails :: inputs where
  "write_fails = press_select\<lparr>setjson_ok := False\<rparr>"

definition rails :: inputs where
  "rails = env_idle\<lparr>analogRead := (\<lambda>p. if p = PH_PIN then 0 else if p = TURB_PIN then 4095 else 2047)\<rparr>"

definition probe_fault :: inputs where
  "probe_fault = env_idle\<lparr>probe := -127\<rparr>"

definition cold_env :: inputs where
  "cold_env = env_idle\<lparr>probe := -5\<rparr>"

definition tds_rail :: inputs where
  "tds_rail = env_idle\<lparr>analogRead := (\<lambda>p. if p = TDS_PIN then 4095 else 2047)\<rparr>"

definition steep :: device where
  "steep = power_on\<lparr>ph_slope := 100, turb_slope := 1000\<rparr>"

definition quiet_ticks :: "(ulong \<times> inputs) list" where
  "quiet_ticks =
     [(15000, env_idle), (200, press_up), (200, press_up), (200, press_select),
      (14900, env_idle), (14900, env_idle), (14900, env_idle), (14900, env_idle),
      (14900, env_idle), (14900, env_idle), (14900, env_idle), (14900, env_idle),
      (14900, env_idle), (14900, env_idle), (14900, env_idle), (14900, env_idle),
      (14900, env_idle), (14900, env_idle), (14900, env_idle), (14900, env_idle),
      (14900, env_idle), (14900, env_idle), (14900, env_idle), (14900, env_idle),
      (14900, env_idle), (14900, env_idle), (14900, env_idle), (14900, env_idle)]"

definition power_save_due :: device where
  "power_save_due = pass 20000 power_save_on"

section \<open>What each function leaves unchanged\<close>

declare emit_def [simp] delay_def [simp] millis_def [simp] pass_def [simp]

lemma attempts_simps [simp]:
  "attempts [] = 0"
  "attempts (xs @ ys) = attempts xs + attempts ys"
  "attempts ((t, e) # xs) = (if e = SerialPrintln msg_attempt then 1 else 0) + attempts xs"
  by (simp_all add: attempts_def)

lemma writes_simps [simp]:
  "writes [] = []"
  "writes (xs @ ys) = writes xs @ writes ys"
  "writes ((t, e) # xs) = (case e of SetJSON p d ok \<Rightarrow> [(t, e)] | _ \<Rightarrow> []) @ writes xs"
  by (simp_all add: writes_def split: event.splits)

lemma getTemp_frame [simp]:
  "asleep (snd (getTemp env s)) = asleep s"
  "powerSaveMode (snd (getTemp env s)) = powerSaveMode s"
  "lastRead (snd (getTemp env s)) = lastRead s"
  "currentMenuItem (snd (getTemp env s)) = currentMenuItem s"
  "clock (snd (getTemp env s)) = clock s"
  "lastButtonPress (snd (getTemp env s)) = lastButtonPress s"
  "lcdBacklightOn (snd (getTemp env s)) = lcdBacklightOn s"
  "lastLCDActivity (snd (getTemp env s)) = lastLCDActivity s"
  "attempts (trace (snd (getTemp env s))) = attempts (trace s)"
  "writes (trace (snd (getTemp env s))) = writes (trace s)"
  by (simp_all add: getTemp_def Let_def msg_attempt_def)

lemma getTemp_keeps [simp]:
  "phBuf (snd (getTemp env s)) = phBuf s"
  "phPtr (snd (getTemp env s)) = phPtr s"
  "turbBuf (snd (getTemp env s)) = turbBuf s"
  "turbPtr (snd (getTemp env s)) = turbPtr s"
  "tdsBuf (snd (getTemp env s)) = tdsBuf s"
  "tdsPtr (snd (getTemp env s)) = tdsPtr s"
  "ph_slope (snd (getTemp env s)) = ph_slope s"
  "ph_intercept (snd (getTemp env s)) = ph_intercept s"
  "turb_slope (snd (getTemp env s)) = turb_slope s"
  "turb_intercept (snd (getTemp env s)) = turb_intercept s"
  "tds_k (snd (getTemp env s)) = tds_k s"
  by (simp_all add: getTemp_def Let_def)

lemma readVoltage_frame [simp]:
  "asleep (snd (snd (snd (readVoltage env pin buf ptr s)))) = asleep s"
  "powerSaveMode (snd (snd (snd (readVoltage env pin buf ptr s)))) = powerSaveMode s"
  "lastRead (snd (snd (snd (readVoltage env pin buf ptr s)))) = lastRead s"
  "currentMenuItem (snd (snd (snd (readVoltage env pin buf ptr s)))) = currentMenuItem s"
  "clock (snd (snd (snd (readVoltage env pin buf ptr s)))) = clock s"
  "lastButtonPress (snd (snd (snd (readVoltage env pin buf ptr s)))) = lastButtonPress s"
  "lcdBacklightOn (snd (snd (snd (readVoltage env pin buf ptr s)))) = lcdBacklightOn s"
  "lastLCDActivity (snd (snd (snd (readVoltage env pin buf ptr s)))) = lastLCDActivity s"
  "attempts (trace (snd (snd (snd (readVoltage env pin buf ptr s))))) = attempts (trace s)"
  "writes (trace (snd (snd (snd (readVoltage env pin buf ptr s))))) = writes (trace s)"
  by (simp_all add: readVoltage_def Let_def)

lemma readVoltage_keeps [simp]:
  "phBuf (snd (snd (snd (readVoltage env pin buf ptr s)))) = phBuf s"
  "phPtr (snd (snd (snd (readVoltage env pin buf ptr s)))) = phPtr s"
  "turbBuf (snd (snd (snd (readVoltage env pin buf ptr s)))) = turbBuf s"
  "turbPtr (snd (snd (snd (readVoltage env pin buf ptr s)))) = turbPtr s"
  "tdsBuf (snd (snd (snd (readVoltage env pin buf ptr s)))) = tdsBuf s"
  "tdsPtr (snd (snd (snd (readVoltage env pin buf ptr s)))) = tdsPtr s"
  "ph_slope (snd (snd (snd (readVoltage env pin buf ptr s)))) = ph_slope s"
  "ph_intercept (snd (snd (snd (readVoltage env pin buf ptr s)))) = ph_intercept s"
  "turb_slope (snd (snd (snd (readVoltage env pin buf ptr s)))) = turb_slope s"
  "turb_intercept (snd (snd (snd (readVoltage env pin buf ptr s)))) = turb_intercept s"
  "tds_k (snd (snd (snd (readVoltage env pin buf ptr s)))) = tds_k s"
  by (simp_all add: readVoltage_def Let_def)

lemma getPH_frame [simp]:
  "asleep (snd (getPH env s)) = asleep s"
  "powerSaveMode (snd (getPH env s)) = powerSaveMode s"
  "lastRead (snd (getPH env s)) = lastRead s"
  "currentMenuItem (snd (getPH env s)) = currentMenuItem s"
  "clock (snd (getPH env s)) = clock s"
  "lastButtonPress (snd (getPH env s)) = lastButtonPress s"
  "lcdBacklightOn (snd (getPH env s)) = lcdBacklightOn s"
  "lastLCDActivity (snd (getPH env s)) = lastLCDActivity s"
  "attempts (trace (snd (getPH env s))) = attempts (trace s)"
  "writes (trace (snd (getPH env s))) = writes (trace s)"
  by (simp_all add: getPH_def Let_def split_beta)

lemma getPH_keeps [simp]:
  "turbBuf (snd (getPH env s)) = turbBuf s"
  "turbPtr (snd (getPH env s)) = turbPtr s"
  "tdsBuf (snd (getPH env s)) = tdsBuf s"
  "tdsPtr (snd (getPH env s)) = tdsPtr s"
  "ph_slope (snd (getPH env s)) = ph_slope s"
  "ph_intercept (snd (getPH env s)) = ph_intercept s"
  "turb_slope (snd (getPH env s)) = turb_slope s"
  "turb_intercept (snd (getPH env s)) = turb_intercept s"
  "tds_k (snd (getPH env s)) = tds_k s"
  by (simp_all add: getPH_def Let_def split_beta)

lemma getTurbidity_frame [simp]:
  "asleep (snd (getTurbidity env s)) = asleep s"
  "powerSaveMode (snd (getTurbidity env s)) = powerSaveMode s"
  "lastRead (snd (getTurbidity env s)) = lastRead s"
  "currentMenuItem (snd (getTurbidity env s)) = currentMenuItem s"
  "clock (snd (getTurbidity env s)) = clock s"
  "lastButtonPress (snd (getTurbidity env s)) = lastButtonPress s"
  "lcdBacklightOn (snd (getTurbidity env s)) = lcdBacklightOn s"
  "lastLCDActivity (snd (getTurbidity env s)) = lastLCDActivity s"
  "attempts (trace (snd (getTurbidity env s))) = attempts (trace s)"
  "writes (trace (snd (getTurbidity env s))) = writes (trace s)"
  by (simp_all add: getTurbidity_def Let_def split_beta)

lemma getTurbidity_keeps [simp]:
  "phBuf (snd (getTurbidity env s)) = phBuf s"
  "phPtr (snd (getTurbidity env s)) = phPtr s"
  "tdsBuf (snd (getTurbidity env s)) = tdsBuf s"
  "tdsPtr (snd (getTurbidity env s)) = tdsPtr s"
  "ph_slope (snd (getTurbidity env s)) = ph_slope s"
  "ph_intercept (snd (getTurbidity env s)) = ph_intercept s"
  "turb_slope (snd (getTurbidity env s)) = turb_slope s"
  "turb_intercept (snd (getTurbidity env s)) = turb_intercept s"
  "tds_k (snd (getTurbidity env s)) = tds_k s"
  by (simp_all add: getTurbidity_def Let_def split_beta)

lemma getTDS_frame [simp]:
  "asleep (snd (getTDS env s)) = asleep s"
  "powerSaveMode (snd (getTDS env s)) = powerSaveMode s"
  "lastRead (snd (getTDS env s)) = lastRead s"
  "currentMenuItem (snd (getTDS env s)) = currentMenuItem s"
  "clock (snd (getTDS env s)) = clock s"
  "lastButtonPress (snd (getTDS env s)) = lastButtonPress s"
  "lcdBacklightOn (snd (getTDS env s)) = lcdBacklightOn s"
  "lastLCDActivity (snd (getTDS env s)) = lastLCDActivity s"
  "attempts (trace (snd (getTDS env s))) = attempts (trace s)"
  "writes (trace (snd (getTDS env s))) = writes (trace s)"
  by (simp_all add: getTDS_def Let_def split_beta)

lemma getTDS_keeps [simp]:
  "phBuf (snd (getTDS env s)) = phBuf s"
  "phPtr (snd (getTDS env s)) = phPtr s"
  "turbBuf (snd (getTDS env s)) = turbBuf s"
  "turbPtr (snd (getTDS env s)) = turbPtr s"
  "ph_slope (snd (getTDS env s)) = ph_slope s"
  "ph_intercept (snd (getTDS env s)) = ph_intercept s"
  "turb_slope (snd (getTDS env s)) = turb_slope s"
  "turb_intercept (snd (getTDS env s)) = turb_intercept s"
  "tds_k (snd (getTDS env s)) = tds_k s"
  by (simp_all add: getTDS_def Let_def split_beta)

lemma getEC_frame [simp]:
  "asleep (snd (getEC env s)) = asleep s"
  "powerSaveMode (snd (getEC env s)) = powerSaveMode s"
  "lastRead (snd (getEC env s)) = lastRead s"
  "currentMenuItem (snd (getEC env s)) = currentMenuItem s"
  "clock (snd (getEC env s)) = clock s"
  "lastButtonPress (snd (getEC env s)) = lastButtonPress s"
  "lcdBacklightOn (snd (getEC env s)) = lcdBacklightOn s"
  "lastLCDActivity (snd (getEC env s)) = lastLCDActivity s"
  "attempts (trace (snd (getEC env s))) = attempts (trace s)"
  "writes (trace (snd (getEC env s))) = writes (trace s)"
  by (simp_all add: getEC_def Let_def split_beta)

lemma wakeLCD_frame [simp]:
  "asleep (wakeLCD s) = asleep s"
  "powerSaveMode (wakeLCD s) = powerSaveMode s"
  "lastRead (wakeLCD s) = lastRead s"
  "currentMenuItem (wakeLCD s) = currentMenuItem s"
  "clock (wakeLCD s) = clock s"
  "lastButtonPress (wakeLCD s) = lastButtonPress s"
  "attempts (trace (wakeLCD s)) = attempts (trace s)"
  "writes (trace (wakeLCD s)) = writes (trace s)"
  "lcdBacklightOn (wakeLCD s) = True"
  "lastLCDActivity (wakeLCD s) = clock s"
  by (simp_all add: wakeLCD_def Let_def)

lemma displayMenu_frame [simp]:
  "asleep (displayMenu s) = asleep s"
  "powerSaveMode (displayMenu s) = powerSaveMode s"
  "lastRead (displayMenu s) = lastRead s"
  "currentMenuItem (displayMenu s) = currentMenuItem s"
  "clock (displayMenu s) = clock s"
  "lastButtonPress (displayMenu s) = lastButtonPress s"
  "attempts (trace (displayMenu s)) = attempts (trace s)"
  "writes (trace (displayMenu s)) = writes (trace s)"
  "lcdBacklightOn (displayMenu s) = True"
  "lastLCDActivity (displayMenu s) = clock s"
  by (simp_all add: displayMenu_def Let_def)

lemma displayValue_frame [simp]:
  "asleep (displayValue n v u s) = asleep s"
  "powerSaveMode (displayValue n v u s) = powerSaveMode s"
  "lastRead (displayValue n v u s) = lastRead s"
  "currentMenuItem (displayValue n v u s) = currentMenuItem s"
  "clock (displayValue n v u s) = clock s"
  "lastButtonPress (displayValue n v u s) = lastButtonPress s"
  "attempts (trace (displayValue n v u s)) = attempts (trace s)"
  "writes (trace (displayValue n v u s)) = writes (trace s)"
  "lcdBacklightOn (displayValue n v u s) = True"
  "lastLCDActivity (displayValue n v u s) = clock s"
  by (simp_all add: displayValue_def Let_def)

lemma sendToFirebase_frame [simp]:
  "asleep (sendToFirebase env s) = asleep s"
  "powerSaveMode (sendToFirebase env s) = powerSaveMode s"
  "lastRead (sendToFirebase env s) = lastRead s"
  "currentMenuItem (sendToFirebase env s) = currentMenuItem s"
  "clock (sendToFirebase env s) = clock s"
  "lastButtonPress (sendToFirebase env s) = lastButtonPress s"
  "lcdBacklightOn (sendToFirebase env s) = lcdBacklightOn s"
  "lastLCDActivity (sendToFirebase env s) = lastLCDActivity s"
  by (simp_all add: sendToFirebase_def Let_def split_beta)

lemma sendToFirebase_attempts [simp]:
  "attempts (trace (sendToFirebase env s)) = attempts (trace s) + 1"
  by (simp add: sendToFirebase_def Let_def split_beta msg_attempt_def msg_not_ready_def
      msg_sensor_error_def msg_write_ok_def msg_write_failed_def)

subsection \<open>Menu, power management and the loop\<close>

lemma selectItem_frame [simp]:
  "asleep (selectItem env s) = asleep s"
  "lastRead (selectItem env s) = lastRead s"
  "currentMenuItem (selectItem env s) = currentMenuItem s"
  by (simp_all add: selectItem_def Let_def split_beta)

lemma selectItem_powerSave:
  "powerSaveMode (selectItem env s) = (if currentMenuItem s = 5 then \<not> powerSaveMode s else powerSaveMode s)"
  by (simp add: selectItem_def Let_def split_beta)

lemma selectItem_attempts:
  "attempts (trace (selectItem env s)) = attempts (trace s) + (if currentMenuItem s = 6 then 1 else 0)"
  by (simp add: selectItem_def Let_def split_beta msg_attempt_def)

lemma handleMenu_frame [simp]:
  "asleep (handleMenu env s) = asleep s"
  "lastRead (handleMenu env s) = lastRead s"
  by (simp_all add: handleMenu_def Let_def split_beta)

lemma enterDeepSleep_frame [simp]:
  "asleep (enterDeepSleep s) = True"
  "lastRead (enterDeepSleep s) = lastRead s"
  "powerSaveMode (enterDeepSleep s) = powerSaveMode s"
  "currentMenuItem (enterDeepSleep s) = currentMenuItem s"
  "attempts (trace (enterDeepSleep s)) = attempts (trace s)"
  by (simp_all add: enterDeepSleep_def Let_def)

lemma managePower_frame [simp]:
  "lastRead (managePower s) = lastRead s"
  "powerSaveMode (managePower s) = powerSaveMode s"
  "currentMenuItem (managePower s) = currentMenuItem s"
  "attempts (trace (managePower s)) = attempts (trace s)"
  by (simp_all add: managePower_def Let_def)

lemma managePower_asleep:
  "asleep (managePower s) = (asleep s \<or> (powerSaveMode s \<and> 300000 < millis s - lastRead s))"
  by (simp add: managePower_def Let_def)

lemma autoSend_frame [simp]:
  "asleep (autoSend env s) = asleep s"
  "powerSaveMode (autoSend env s) = powerSaveMode s"
  "currentMenuItem (autoSend env s) = currentMenuItem s"
  "clock (autoSend env s) = clock s"
  by (simp_all add: autoSend_def Let_def)

lemma loop_asleep:
  "asleep (loop env s) =
     (asleep s \<or> (powerSaveMode (handleMenu env s) \<and>
        300000 < millis (handleMenu env s) - lastRead (handleMenu env s)))"
  by (simp add: loop_def Let_def managePower_asleep)

lemma loop_asleep_powerSave:
  "asleep (loop env s) \<Longrightarrow> \<not> asleep s \<or> powerSaveMode s \<Longrightarrow> powerSaveMode (loop env s)"
  by (auto simp add: loop_def Let_def managePower_asleep split: if_splits)

lemma run_asleep_powerSave:
  "asleep (run ticks s) \<Longrightarrow> \<not> asleep s \<or> powerSaveMode s \<Longrightarrow> powerSaveMode (run ticks s)"
proof (induction ticks arbitrary: s)
  case Nil
  then show ?case by simp
next
  case (Cons a ticks)
  obtain dt env where a: "a = (dt, env)" by (cases a)
  have "\<not> asleep (loop env (pass dt s)) \<or> powerSaveMode (loop env (pass dt s))"
    using Cons.prems(2) loop_asleep_powerSave [of env "pass dt s"] by auto
  with Cons.IH [of "loop env (pass dt s)"] Cons.prems(1) a show ?case by simp
qed

section \<open>Values and writes of an upload\<close>

lemma getTemp_value:
  "fst (getTemp env s) = (if probe env = -127 \<or> probe env = 85 then 25 else probe env)"
  by (simp add: getTemp_def Let_def)

lemma getPH_cong:
  "phBuf s' = phBuf s \<Longrightarrow> phPtr s' = phPtr s \<Longrightarrow> ph_slope s' = ph_slope s \<Longrightarrow>
   ph_intercept s' = ph_intercept s \<Longrightarrow> fst (getPH env s') = fst (getPH env s)"
  by (simp add: getPH_def readVoltage_def getTemp_def Let_def split_beta)

lemma getTurbidity_cong:
  "turbBuf s' = turbBuf s \<Longrightarrow> turbPtr s' = turbPtr s \<Longrightarrow> turb_slope s' = turb_slope s \<Longrightarrow>
   turb_intercept s' = turb_intercept s \<Longrightarrow> fst (getTurbidity env s') = fst (getTurbidity env s)"
  by (simp add: getTurbidity_def readVoltage_def Let_def split_beta)

lemma getTDS_cong:
  "tdsBuf s' = tdsBuf s \<Longrightarrow> tdsPtr s' = tdsPtr s \<Longrightarrow> tds_k s' = tds_k s \<Longrightarrow>
   fst (getTDS env s') = fst (getTDS env s)"
  by (simp add: getTDS_def readVoltage_def getTemp_def Let_def split_beta)

lemma sendToFirebase_writes:
  "writes (trace (sendToFirebase env s)) = writes (trace s) @
     (if wifi_connected env \<and> firebase_ready env \<and>
         \<not> (fst (getTemp env s) < 0 \<or> fst (getPH env s) < 0 \<or> fst (getTurbidity env s) < 0 \<or>
            fst (getTDS env s) < 0)
      then [(clock s, SetJSON (clock s div 1000)
              \<lparr> t_field = fst (getTemp env s), p_field = fst (getPH env s),
                n_field = fst (getTurbidity env s), d_field = fst (getTDS env s),
                ec_field = fst (getTDS env s) * 2 \<rparr> (setjson_ok env))]
      else [])"
proof -
  define s0 where "s0 = emit (SerialPrintln msg_attempt) s"
  define s1 where "s1 = snd (getTemp env s0)"
  define s2 where "s2 = snd (getPH env s1)"
  define s3 where "s3 = snd (getTurbidity env s2)"
  define s4 where "s4 = snd (getTDS env s3)"
  have T: "fst (getTemp env s0) = fst (getTemp env s)"
    by (simp add: getTemp_value)
  have P: "fst (getPH env s1) = fst (getPH env s)"
    by (rule getPH_cong) (simp_all add: s1_def s0_def)
  have N: "fst (getTurbidity env s2) = fst (getTurbidity env s)"
    by (rule getTurbidity_cong) (simp_all add: s2_def s1_def s0_def)
  have D: "fst (getTDS env s3) = fst (getTDS env s)"
    by (rule getTDS_cong) (simp_all add: s3_def s2_def s1_def s0_def)
  have W: "writes (trace s4) = writes (trace s)"
    by (simp add: s4_def s3_def s2_def s1_def s0_def)
  have C: "clock s4 = clock s"
    by (simp add: s4_def s3_def s2_def s1_def s0_def)
  have unfold: "sendToFirebase env s =
     (if \<not> wifi_connected env \<or> \<not> firebase_ready env
      then emit (SerialPrintln msg_not_ready) s0
      else if fst (getTemp env s) < 0 \<or> fst (getPH env s) < 0 \<or> fst (getTurbidity env s) < 0 \<or>
            fst (getTDS env s) < 0
      then emit (SerialPrintln msg_sensor_error) s4
      else emit (SerialPrintln (if setjson_ok env then msg_write_ok else msg_write_failed))
            (emit (SetJSON (millis s4 div 1000)
              \<lparr> t_field = fst (getTemp env s), p_field = fst (getPH env s),
                n_field = fst (getTurbidity env s), d_field = fst (getTDS env s),
                ec_field = fst (getTDS env s) * 2 \<rparr> (setjson_ok env))
              (emit (SerialPath (millis s4 div 1000)) s4)))"
    unfolding sendToFirebase_def Let_def split_beta
    unfolding s0_def [symmetric] s1_def [symmetric] T
    unfolding s2_def [symmetric] P
    unfolding s3_def [symmetric] N
    unfolding s4_def [symmetric] D
    by auto
  show ?thesis
    unfolding unfold using W C by (simp add: s0_def)
qed

subsection \<open>The scheduled check and the menu\<close>

lemma autoSend_attempts:
  "attempts (trace (autoSend env s)) =
     attempts (trace s) + (if 15000 \<le> millis s - lastRead s \<and> \<not> powerSaveMode s then 1 else 0)"
  by (simp add: autoSend_def Let_def)

lemma autoSend_lastRead:
  "lastRead (autoSend env s) = (if 15000 \<le> millis s - lastRead s then millis s else lastRead s)"
  by (simp add: autoSend_def Let_def)

lemma handleMenu_select:
  "\<not> millis s - lastButtonPress s < 200 \<Longrightarrow> btn_up env \<Longrightarrow> btn_down env \<Longrightarrow> \<not> btn_select env \<Longrightarrow>
   handleMenu env s = (selectItem env s)\<lparr>lastButtonPress := millis (selectItem env s)\<rparr>"
  by (simp add: handleMenu_def)

lemma handleMenu_up:
  "\<not> millis s - lastButtonPress s < 200 \<Longrightarrow> \<not> btn_up env \<Longrightarrow>
   currentMenuItem (handleMenu env s) = (if currentMenuItem s > 0 then currentMenuItem s - 1 else 6)"
  by (simp add: handleMenu_def menuItemsCount_def)

lemma handleMenu_down:
  "\<not> millis s - lastButtonPress s < 200 \<Longrightarrow> btn_up env \<Longrightarrow> \<not> btn_down env \<Longrightarrow>
   currentMenuItem (handleMenu env s) = (if currentMenuItem s < 6 then currentMenuItem s + 1 else 0)"
  by (simp add: handleMenu_def menuItemsCount_def)

lemma handleMenu_index:
  "0 \<le> currentMenuItem s \<Longrightarrow> currentMenuItem s < 7 \<Longrightarrow>
   0 \<le> currentMenuItem (handleMenu env s) \<and> currentMenuItem (handleMenu env s) < 7"
  by (simp add: handleMenu_def menuItemsCount_def)

lemma loop_index:
  "0 \<le> currentMenuItem s \<Longrightarrow> currentMenuItem s < 7 \<Longrightarrow>
   0 \<le> currentMenuItem (loop env s) \<and> currentMenuItem (loop env s) < 7"
  using handleMenu_index [of s env] by (simp add: loop_def Let_def)

lemma run_index:
  "0 \<le> currentMenuItem s \<Longrightarrow> currentMenuItem s < 7 \<Longrightarrow>
   0 \<le> currentMenuItem (run ticks s) \<and> currentMenuItem (run ticks s) < 7"
proof (induction ticks arbitrary: s)
  case Nil
  then show ?case by simp
next
  case (Cons a ticks)
  obtain dt env where a: "a = (dt, env)" by (cases a)
  have "0 \<le> currentMenuItem (loop env (pass dt s)) \<and> currentMenuItem (loop env (pass dt s)) < 7"
    using Cons.prems loop_index [of "pass dt s" env] by simp
  with Cons.IH [of "loop env (pass dt s)"] a show ?case by simp
qed

lemma displayMenu_trace:
  "\<exists>post. trace (displayMenu s) = trace s @ post"
  by (simp add: displayMenu_def wakeLCD_def Let_def)

lemma selectItem_send_shown:
  "currentMenuItem s = 6 \<Longrightarrow>
   take 3 (drop (length (trace (sendToFirebase env (emit (LcdPrint ''Sending data...'') (emit LcdClear s)))))
     (trace (selectItem env s))) =
     [(clock s, LcdClear), (clock s, LcdPrint ''Data sent!''), (clock s, Delay 1000)]"
proof -
  assume six: "currentMenuItem s = 6"
  define s3 where "s3 = sendToFirebase env (emit (LcdPrint ''Sending data...'') (emit LcdClear s))"
  define s6 where "s6 = delay 1000 (emit (LcdPrint ''Data sent!'') (emit LcdClear s3))"
  have c: "clock s3 = clock s" by (simp add: s3_def)
  have sel: "selectItem env s = displayMenu s6"
    using six by (simp add: selectItem_def Let_def s3_def s6_def)
  obtain post where post: "trace (displayMenu s6) = trace s6 @ post"
    using displayMenu_trace by blast
  have "trace s6 = trace s3 @ [(clock s, LcdClear), (clock s, LcdPrint ''Data sent!''), (clock s, Delay 1000)]"
    by (simp add: s6_def c)
  with sel post show ?thesis
    by (simp add: s3_def)
qed

lemma selectItem_send_writes:
  "currentMenuItem s = 6 \<Longrightarrow>
   writes (trace (selectItem env s)) = writes (trace (sendToFirebase env s))"
proof -
  assume six: "currentMenuItem s = 6"
  define s2 where "s2 = emit (LcdPrint ''Sending data...'') (emit LcdClear s)"
  have v: "fst (getTemp env s2) = fst (getTemp env s)" "clock s2 = clock s"
    "writes (trace s2) = writes (trace s)"
    by (simp_all add: s2_def getTemp_value)
  have p: "fst (getPH env s2) = fst (getPH env s)"
    by (rule getPH_cong) (simp_all add: s2_def)
  have n: "fst (getTurbidity env s2) = fst (getTurbidity env s)"
    by (rule getTurbidity_cong) (simp_all add: s2_def)
  have d: "fst (getTDS env s2) = fst (getTDS env s)"
    by (rule getTDS_cong) (simp_all add: s2_def)
  have "writes (trace (selectItem env s)) = writes (trace (sendToFirebase env s2))"
    using six by (simp add: selectItem_def Let_def s2_def)
  also have "\<dots> = writes (trace (sendToFirebase env s))"
    unfolding sendToFirebase_writes [of env s2] sendToFirebase_writes [of env s] v p n d ..
  finally show ?thesis .
qed

subsection \<open>Sensor values\<close>

lemma sum3_nth: "sum3 buf = buf ! 0 + buf ! 1 + buf ! 2"
  by (simp add: sum3_def)

lemma sum3_nonneg:
  assumes "length buf = 3" "\<forall>x\<in>set buf. 0 \<le> x"
  shows "0 \<le> sum3 buf"
proof -
  have "0 \<le> buf ! 0" "0 \<le> buf ! 1" "0 \<le> buf ! 2"
    using assms by simp_all
  then show ?thesis by (simp add: sum3_nth)
qed

lemma readVoltage_nonneg:
  assumes "0 < analogRead env pin" "analogRead env pin < 4095" "length buf = 3" "\<forall>x\<in>set buf. 0 \<le> x"
  shows "0 \<le> fst (readVoltage env pin buf ptr s)"
proof -
  let ?v = "real_of_int (analogRead env pin) * (3.3 / 4095)"
  have v: "0 \<le> ?v" using assms(1) by simp
  have "\<forall>x\<in>set (buf[ptr := ?v]). 0 \<le> x"
    using assms(4) v set_update_subset_insert [of buf ptr ?v] by auto
  then have "0 \<le> sum3 (buf[ptr := ?v])"
    using assms(3) by (intro sum3_nonneg) simp_all
  then show ?thesis
    using assms(1,2) by (simp add: readVoltage_def Let_def)
qed

lemma constrain_bounds: "low \<le> high \<Longrightarrow> low \<le> constrain amt low high \<and> constrain amt low high \<le> high"
  by (simp add: constrain_def)

lemma getPH_value:
  "fst (getPH env s) =
     (if fst (readVoltage env PH_PIN (phBuf s) (phPtr s) s) < 0 then -1
      else constrain (ph_slope s * fst (readVoltage env PH_PIN (phBuf s) (phPtr s) s) + ph_intercept s +
             0.0198 * (fst (getTemp env s) - 25)) 0 14)"
  by (simp add: getPH_def Let_def split_beta getTemp_value)

lemma getTurbidity_value:
  "fst (getTurbidity env s) =
     (if fst (readVoltage env TURB_PIN (turbBuf s) (turbPtr s) s) < 0 then -1
      else constrain (turb_slope s * fst (readVoltage env TURB_PIN (turbBuf s) (turbPtr s) s) +
             turb_intercept s) 0 150)"
  by (simp add: getTurbidity_def Let_def split_beta)

lemma getTDS_value:
  "fst (getTDS env s) =
     (if fst (readVoltage env TDS_PIN (tdsBuf s) (tdsPtr s) s) < 0 then -1
      else fst (readVoltage env TDS_PIN (tdsBuf s) (tdsPtr s) s) * tds_k s *
             (1 + 0.02 * (fst (getTemp env s) - 25)))"
  by (simp add: getTDS_def Let_def split_beta getTemp_value)

lemma getEC_value:
  "fst (getEC env s) = (if fst (getTDS env s) < 0 then -1 else fst (getTDS env s) * 2)"
  "snd (getEC env s) = snd (getTDS env s)"
  by (simp_all add: getEC_def Let_def split_beta)

subsection \<open>The buffers keep their shape\<close>

lemma readVoltage_shape:
  "length (fst (snd (readVoltage env pin buf ptr s))) = length buf"
  "ptr < 3 \<Longrightarrow> fst (snd (snd (readVoltage env pin buf ptr s))) < 3"
  by (simp_all add: readVoltage_def Let_def)

lemma getPH_shape:
  "length (phBuf (snd (getPH env s))) = length (phBuf s)"
  "phPtr s < 3 \<Longrightarrow> phPtr (snd (getPH env s)) < 3"
  by (simp_all add: getPH_def Let_def split_beta readVoltage_shape)

lemma getTurbidity_shape:
  "length (turbBuf (snd (getTurbidity env s))) = length (turbBuf s)"
  "turbPtr s < 3 \<Longrightarrow> turbPtr (snd (getTurbidity env s)) < 3"
  by (simp_all add: getTurbidity_def Let_def split_beta readVoltage_shape)

lemma getTDS_shape:
  "length (tdsBuf (snd (getTDS env s))) = length (tdsBuf s)"
  "tdsPtr s < 3 \<Longrightarrow> tdsPtr (snd (getTDS env s)) < 3"
  by (simp_all add: getTDS_def Let_def split_beta readVoltage_shape)

lemma sensors_buffers_ok:
  "buffers_ok s \<Longrightarrow> buffers_ok (snd (getTemp env s))"
  "buffers_ok s \<Longrightarrow> buffers_ok (snd (getPH env s))"
  "buffers_ok s \<Longrightarrow> buffers_ok (snd (getTurbidity env s))"
  "buffers_ok s \<Longrightarrow> buffers_ok (snd (getTDS env s))"
  "buffers_ok s \<Longrightarrow> buffers_ok (snd (getEC env s))"
  by (simp_all add: buffers_ok_def getPH_shape getTurbidity_shape getTDS_shape getEC_value)

lemma buffers_ok_update [simp]:
  "buffers_ok (s\<lparr>trace := tr\<rparr>) = buffers_ok s"
  "buffers_ok (s\<lparr>clock := c\<rparr>) = buffers_ok s"
  "buffers_ok (s\<lparr>lastLCDActivity := a\<rparr>) = buffers_ok s"
  "buffers_ok (s\<lparr>lcdBacklightOn := b\<rparr>) = buffers_ok s"
  "buffers_ok (s\<lparr>lastButtonPress := p\<rparr>) = buffers_ok s"
  "buffers_ok (s\<lparr>currentMenuItem := i\<rparr>) = buffers_ok s"
  "buffers_ok (s\<lparr>powerSaveMode := m\<rparr>) = buffers_ok s"
  "buffers_ok (s\<lparr>lastRead := r\<rparr>) = buffers_ok s"
  "buffers_ok (s\<lparr>asleep := z\<rparr>) = buffers_ok s"
  by (simp_all add: buffers_ok_def)

lemma display_buffers_ok [simp]:
  "buffers_ok (wakeLCD s) = buffers_ok s"
  "buffers_ok (displayMenu s) = buffers_ok s"
  "buffers_ok (displayValue n v u s) = buffers_ok s"
  "buffers_ok (enterDeepSleep s) = buffers_ok s"
  "buffers_ok (managePower s) = buffers_ok s"
  by (simp_all add: wakeLCD_def displayMenu_def displayValue_def enterDeepSleep_def
      managePower_def Let_def)

lemma sendToFirebase_buffers_ok:
  "buffers_ok s \<Longrightarrow> buffers_ok (sendToFirebase env s)"
  by (simp add: sendToFirebase_def Let_def split_beta sensors_buffers_ok)

lemma selectItem_buffers_ok:
  "buffers_ok s \<Longrightarrow> buffers_ok (selectItem env s)"
  by (simp add: selectItem_def Let_def split_beta sensors_buffers_ok sendToFirebase_buffers_ok)

lemma handleMenu_buffers_ok:
  "buffers_ok s \<Longrightarrow> buffers_ok (handleMenu env s)"
  by (simp add: handleMenu_def Let_def selectItem_buffers_ok)

lemma loop_buffers_ok:
  "buffers_ok s \<Longrightarrow> buffers_ok (loop env s)"
  by (simp add: loop_def autoSend_def Let_def handleMenu_buffers_ok sendToFirebase_buffers_ok)

lemma run_buffers_ok:
  "buffers_ok s \<Longrightarrow> buffers_ok (run ticks s)"
proof (induction ticks arbitrary: s)
  case Nil
  then show ?case by simp
next
  case (Cons a ticks)
  obtain dt env where a: "a = (dt, env)" by (cases a)
  have "buffers_ok (loop env (pass dt s))"
    using Cons.prems by (simp add: loop_buffers_ok)
  with Cons.IH a show ?case by simp
qed

lemma power_on_buffers_ok: "buffers_ok power_on"
  by (simp add: buffers_ok_def power_on_def)

subsection \<open>Polling keeps the device awake\<close>

text \<open>Each iteration of \<open>loop\<close> that does not go to sleep leaves \<open>lastRead\<close> at most
  15.1 s behind the clock, and \<open>handleMenu\<close> takes at most 1 s.  So as long as no more than
  280 s pass between two iterations, the device never goes to sleep from power-on, whatever
  the buttons and the power-save setting.\<close>

lemma unat_add_le: "unat (a + b :: ulong) \<le> unat a + unat b"
  by (simp add: unat_word_ariths)

lemma selectItem_clock:
  "clock (selectItem env s) = clock s + (if currentMenuItem s = 5 \<or> currentMenuItem s = 6 then 1000 else 0)"
  by (simp add: selectItem_def Let_def split_beta)

lemma handleMenu_clock:
  "clock (handleMenu env s) = clock s \<or> clock (handleMenu env s) = clock s + 1000"
  by (simp add: handleMenu_def Let_def selectItem_clock)

lemma managePower_awake:
  "\<not> asleep (managePower s) \<Longrightarrow> clock (managePower s) = clock s"
  by (simp add: managePower_def Let_def split: if_splits)

lemma loop_recently_read:
  assumes "recently_read s" "unat dt \<le> 280000"
  shows "recently_read (loop env (pass dt s))"
proof -
  define s0 where "s0 = pass dt s"
  define s1 where "s1 = handleMenu env s0"
  define s2 where "s2 = managePower s1"
  have awake0: "\<not> asleep s0" and r0: "lastRead s0 = lastRead s" and c0: "clock s0 = clock s + dt"
    using assms(1) by (simp_all add: s0_def recently_read_def)
  have r1: "lastRead s1 = lastRead s" and awake1: "\<not> asleep s1"
    using r0 awake0 by (simp_all add: s1_def)
  obtain k :: ulong where k: "clock s1 = clock s0 + k" "unat k \<le> 1000"
  proof (cases "clock s1 = clock s0")
    case True
    then show ?thesis using that [of 0] by simp
  next
    case False
    then have "clock s1 = clock s0 + 1000"
      using handleMenu_clock [of env s0] by (simp add: s1_def)
    then show ?thesis using that [of 1000] by simp
  qed
  have "clock s1 - lastRead s1 = (clock s - lastRead s) + dt + k"
    by (simp add: k c0 r1)
  then have "unat (clock s1 - lastRead s1) \<le> unat (clock s - lastRead s) + unat dt + unat k"
    using unat_add_le [of "clock s - lastRead s + dt" k] unat_add_le [of "clock s - lastRead s" dt]
    by simp
  then have bound: "unat (clock s1 - lastRead s1) \<le> 296100"
    using assms k(2) by (simp add: recently_read_def)
  then have "\<not> 300000 < clock s1 - lastRead s1"
    by (simp add: word_less_nat_alt)
  then have awake2: "\<not> asleep s2"
    using awake1 by (simp add: s2_def managePower_asleep)
  then have c2: "clock s2 = clock s1" and r2: "lastRead s2 = lastRead s1"
    using managePower_awake [of s1] by (simp_all add: s2_def)
  have lp: "loop env s0 = delay 100 (autoSend env s2)"
    using awake0 awake2 by (simp add: loop_def Let_def s1_def s2_def)
  have "unat (clock (autoSend env s2) + 100 - lastRead (autoSend env s2)) \<le> 15100"
  proof (cases "15000 \<le> clock s2 - lastRead s2")
    case True
    then show ?thesis by (simp add: autoSend_lastRead)
  next
    case False
    then have lt: "unat (clock s2 - lastRead s2) < 15000"
      by (simp add: word_le_nat_alt)
    have b: "unat ((clock s2 - lastRead s2) + 100) \<le> 15100"
      using lt unat_add_le [of "clock s2 - lastRead s2" 100] by simp
    have "lastRead (autoSend env s2) = lastRead s2" "clock (autoSend env s2) = clock s2"
      using False by (simp_all add: autoSend_lastRead)
    then have eq: "clock (autoSend env s2) + 100 - lastRead (autoSend env s2) =
        (clock s2 - lastRead s2) + 100"
      by simp
    show ?thesis
      unfolding eq by (rule b)
  qed
  then have "recently_read (loop env s0)"
    using awake2 by (simp add: lp recently_read_def)
  then show ?thesis
    by (simp add: s0_def)
qed

lemma run_recently_read:
  "recently_read s \<Longrightarrow> \<forall>te\<in>set ticks. unat (fst te) \<le> 280000 \<Longrightarrow> recently_read (run ticks s)"
proof (induction ticks arbitrary: s)
  case Nil
  then show ?case by simp
next
  case (Cons a ticks)
  obtain dt env where a: "a = (dt, env)" by (cases a)
  have "recently_read (loop env (pass dt s))"
    using Cons.prems a by (intro loop_recently_read) simp_all
  with Cons.IH [of "loop env (pass dt s)"] Cons.prems(2) a show ?case by simp
qed

lemma short_ticks_never_sleep:
  "\<forall>te\<in>set ticks. unat (fst te) \<le> 280000 \<Longrightarrow> \<not> asleep (run ticks power_on)"
proof -
  assume h: "\<forall>te\<in>set ticks. unat (fst te) \<le> 280000"
  have "recently_read power_on"
    by (simp add: recently_read_def power_on_def)
  then have "recently_read (run ticks power_on)"
    using h by (rule run_recently_read)
  then show ?thesis by (simp add: recently_read_def)
qed

text \<open>The definitions unfolded when a function is evaluated on concrete inputs.\<close>

lemmas eval_defs = power_on_def env_idle_def press_up_def press_down_def press_select_def
  loop_def handleMenu_def managePower_def autoSend_def selectItem_def displayMenu_def wakeLCD_def
  enterDeepSleep_def sendToFirebase_def getTemp_def getPH_def getTurbidity_def getTDS_def getEC_def
  readVoltage_def sum3_def constrain_def displayValue_def menuItems_def menuItemsCount_def Let_def
  msg_attempt_def msg_not_ready_def msg_sensor_error_def msg_write_ok_def msg_write_failed_def


text \<open>The run \<open>quiet_ticks\<close>, evaluated.\<close>

lemma quiet_start:
  "powerSaveMode (run (take 4 quiet_ticks) power_on)"
  "clock (run (take 4 quiet_ticks) power_on) = 17000"
  by (simp_all add: quiet_ticks_def eval_defs cong: let_weak_cong)

lemma quiet_power_save: "powerSaveMode (run quiet_ticks power_on)"
  by (simp add: quiet_ticks_def eval_defs cong: let_weak_cong)

lemma quiet_clock: "clock (run quiet_ticks power_on) = 377000"
  by (simp add: quiet_ticks_def eval_defs cong: let_weak_cong)

lemma quiet_lastRead: "lastRead (run quiet_ticks power_on) = 376900"
  by (simp add: quiet_ticks_def eval_defs cong: let_weak_cong)

lemma quiet_last_attempt: "last_attempt (trace (run quiet_ticks power_on)) = Some 15000"
  by (simp add: quiet_ticks_def eval_defs cong: let_weak_cong)

lemma quiet_sleep_starts: "sleep_starts (trace (run quiet_ticks power_on)) = 0"
  by (simp add: quiet_ticks_def eval_defs sleep_starts_def cong: let_weak_cong)

section \<open>Claims\<close>

text \<open>
  C1 (the sketch falls short of it).  Deep sleep is to be entered whenever power-save is
  enabled and more than 300 s have passed since the last full sample cycle.  On the run
  \<open>quiet_ticks\<close> it is not: the scheduled upload at 15 s is the only sample cycle,
  the menu switches power-save on at 15.9 s, and from 17 s on \<open>loop\<close> is polled every
  15 s with no button pressed.  At 377 s, 362 s after the sample cycle, power-save is
  still on, the device is awake and \<open>esp_deep_sleep_start()\<close> was never called, because
  the scheduled check has moved \<open>lastRead\<close> on to 376.9 s.
\<close>

theorem power_save_loop_stays_awake:
  "powerSaveMode (run (take 4 quiet_ticks) power_on) \<and>
   clock (run (take 4 quiet_ticks) power_on) = 17000 \<and>
   powerSaveMode (run quiet_ticks power_on) \<and>
   clock (run quiet_ticks power_on) = 377000 \<and>
   last_attempt (trace (run quiet_ticks power_on)) = Some 15000 \<and>
   300000 < clock (run quiet_ticks power_on) - 15000 \<and>
   lastRead (run quiet_ticks power_on) = 376900 \<and>
   \<not> asleep (run quiet_ticks power_on) \<and>
   sleep_starts (trace (run quiet_ticks power_on)) = 0"
proof -
  have "\<forall>te\<in>set quiet_ticks. unat (fst te) \<le> 280000"
    by (simp add: quiet_ticks_def)
  then have awake: "\<not> asleep (run quiet_ticks power_on)"
    by (rule short_ticks_never_sleep)
  show ?thesis
    using awake quiet_start quiet_power_save quiet_clock quiet_lastRead quiet_last_attempt
      quiet_sleep_starts
    by simp
qed

text \<open>
  C2 (amended).  An automatic upload attempt occurs exactly when at least 15 s have passed
  since the scheduled check last updated its timestamp \<open>lastRead\<close> and power-save is not
  enabled.  Every automatic attempt sets the timestamp to the current time, a check that
  is not due leaves it alone, and neither \<open>handleMenu\<close> (so no manual send) nor
  \<open>managePower\<close> writes it.  It is the timestamp the deep-sleep trigger reads: a device
  that is awake goes to sleep in \<open>managePower\<close> exactly when power-save is enabled and
  more than 300 s separate the clock from \<open>lastRead\<close>, also with the \<open>lastRead\<close> the
  scheduled check has just left and after any further time \<open>dt\<close>.  With power-save
  enabled the check makes no upload attempt whatever the elapsed time.
\<close>

theorem auto_upload_schedule:
  "attempts (trace (autoSend env s)) =
     attempts (trace s) + (if 15000 \<le> millis s - lastRead s \<and> \<not> powerSaveMode s then 1 else 0) \<and>
   (15000 \<le> millis s - lastRead s \<and> \<not> powerSaveMode s \<longrightarrow> lastRead (autoSend env s) = millis s) \<and>
   (\<not> 15000 \<le> millis s - lastRead s \<longrightarrow> lastRead (autoSend env s) = lastRead s) \<and>
   lastRead (handleMenu env s) = lastRead s \<and>
   lastRead (managePower s) = lastRead s \<and>
   (\<not> asleep s \<longrightarrow>
      asleep (managePower s) = (powerSaveMode s \<and> 300000 < millis s - lastRead s)) \<and>
   (\<not> asleep s \<longrightarrow>
      asleep (managePower (pass dt (autoSend env s))) =
        (powerSaveMode s \<and> 300000 < millis s + dt - lastRead (autoSend env s))) \<and>
   (powerSaveMode s \<longrightarrow> attempts (trace (autoSend env s)) = attempts (trace s))"
  by (simp add: autoSend_attempts autoSend_lastRead managePower_asleep)

theorem auto_upload_schedule_witness:
  "\<not> asleep after_manual \<and> \<not> powerSaveMode after_manual \<and>
   15000 \<le> millis after_manual - lastRead after_manual \<and>
   attempts (trace (autoSend env_idle after_manual)) = attempts (trace after_manual) + 1 \<and>
   lastRead (autoSend env_idle after_manual) = 15000 \<and>
   \<not> asleep (managePower (pass 300001 (autoSend env_idle after_manual))) \<and>
   \<not> 15000 \<le> millis power_save_on - lastRead power_save_on \<and>
   lastRead (autoSend env_idle power_save_on) = lastRead power_save_on \<and>
   powerSaveMode power_save_due \<and> \<not> asleep power_save_due \<and>
   attempts (trace (autoSend env_idle power_save_due)) = attempts (trace power_save_due) \<and>
   \<not> asleep (managePower (pass 300000 (autoSend env_idle power_save_due))) \<and>
   asleep (managePower (pass 300001 (autoSend env_idle power_save_due))) \<and>
   \<not> asleep about_to_sleep \<and> powerSaveMode about_to_sleep \<and>
   300000 < millis about_to_sleep - lastRead about_to_sleep \<and>
   asleep (managePower about_to_sleep)"
proof -
  have a: "\<not> asleep after_manual" "\<not> powerSaveMode after_manual" "clock after_manual = 15000"
    "lastRead after_manual = 0"
    by (simp_all add: after_manual_def manual_ticks_def eval_defs cong: let_weak_cong)
  have b: "powerSaveMode power_save_on" "\<not> asleep power_save_on" "clock power_save_on = 4700"
    "lastRead power_save_on = 0"
    by (simp_all add: power_save_on_def eval_defs cong: let_weak_cong)
  have c: "powerSaveMode power_save_due" "\<not> asleep power_save_due" "clock power_save_due = 24700"
    "lastRead power_save_due = 0"
    using b by (simp_all add: power_save_due_def)
  have d: "lastRead (autoSend env_idle power_save_due) = 24700"
    using c by (simp add: autoSend_lastRead)
  have e: "\<not> asleep about_to_sleep" "powerSaveMode about_to_sleep"
    "300000 < millis about_to_sleep - lastRead about_to_sleep"
    by (simp_all add: about_to_sleep_def eval_defs cong: let_weak_cong)
  show ?thesis
    using a b c d e auto_upload_schedule [of env_idle after_manual 300001]
      auto_upload_schedule [of env_idle power_save_on 0]
      auto_upload_schedule [of env_idle power_save_due 300000]
      auto_upload_schedule [of env_idle power_save_due 300001]
      auto_upload_schedule [of env_idle about_to_sleep 0]
    by simp
qed

text \<open>
  C2 as stated fails: 3 s after a manual send (made at 12000 ms) the scheduled check
  fires at 15000 ms and makes an upload attempt, because the manual send did not touch
  \<open>lastRead\<close>.
\<close>

theorem auto_upload_after_manual_send:
  "last_attempt (trace after_manual) = Some 12000 \<and>
   millis after_manual - 12000 < 15000 \<and>
   \<not> powerSaveMode after_manual \<and>
   attempts (trace (autoSend env_idle after_manual)) = attempts (trace after_manual) + 1"
proof -
  have a: "\<not> powerSaveMode after_manual" "clock after_manual = 15000" "lastRead after_manual = 0"
    by (simp_all add: after_manual_def manual_ticks_def eval_defs cong: let_weak_cong)
  have b: "last_attempt (trace after_manual) = Some 12000"
    by (simp add: after_manual_def manual_ticks_def eval_defs cong: let_weak_cong)
  show ?thesis
    using a b by (simp add: autoSend_attempts)
qed

text \<open>
  C3 (amended).  A probe sentinel (\<open>-127\<close> or \<open>85\<close>) is mapped to 25.0 degrees C and
  never propagates invalidity: pH and TDS are then computed exactly as at 25.0 degrees C,
  TDS stays valid when the voltage is valid and the probe constant is not negative, pH is
  invalid only when its voltage is, and the upload is not skipped on account of the
  temperature.  With WiFi and Firebase ready, the upload is skipped exactly when the
  temperature, pH, turbidity or TDS value (and with TDS, EC) is negative.
\<close>

theorem temperature_fault_default:
  "(probe env = -127 \<or> probe env = 85 \<longrightarrow>
      fst (getTemp env s) = 25 \<and>
      fst (getPH env s) = fst (getPH (env\<lparr>probe := 25\<rparr>) s) \<and>
      fst (getTDS env s) = fst (getTDS (env\<lparr>probe := 25\<rparr>) s) \<and>
      (0 \<le> tds_k s \<and> \<not> fst (readVoltage env TDS_PIN (tdsBuf s) (tdsPtr s) s) < 0 \<longrightarrow>
         \<not> fst (getTDS env s) < 0) \<and>
      (wifi_connected env \<and> firebase_ready env \<longrightarrow>
         (writes (trace (sendToFirebase env s)) = writes (trace s)) =
           (fst (getPH env s) < 0 \<or> fst (getTurbidity env s) < 0 \<or> fst (getTDS env s) < 0))) \<and>
   (fst (getPH env s) < 0) = (fst (readVoltage env PH_PIN (phBuf s) (phPtr s) s) < 0) \<and>
   (wifi_connected env \<and> firebase_ready env \<longrightarrow>
      (writes (trace (sendToFirebase env s)) = writes (trace s)) =
        (fst (getTemp env s) < 0 \<or> fst (getPH env s) < 0 \<or> fst (getTurbidity env s) < 0 \<or>
         fst (getTDS env s) < 0))"
proof -
  have c14: "0 \<le> constrain x 0 14" for x
    using constrain_bounds [of 0 14 x] by simp
  have rv: "readVoltage (env\<lparr>probe := 25\<rparr>) pin buf ptr s = readVoltage env pin buf ptr s" for pin buf ptr
    by (simp add: readVoltage_def)
  have t25: "fst (getTemp (env\<lparr>probe := 25\<rparr>) s) = 25"
    by (simp add: getTemp_value)
  have 1: "probe env = -127 \<or> probe env = 85 \<Longrightarrow> fst (getTemp env s) = 25"
    by (auto simp add: getTemp_value)
  have 2: "probe env = -127 \<or> probe env = 85 \<Longrightarrow> fst (getPH env s) = fst (getPH (env\<lparr>probe := 25\<rparr>) s)"
    unfolding getPH_value rv t25 using 1 by simp
  have 3: "probe env = -127 \<or> probe env = 85 \<Longrightarrow> fst (getTDS env s) = fst (getTDS (env\<lparr>probe := 25\<rparr>) s)"
    unfolding getTDS_value rv t25 using 1 by simp
  have 4: "probe env = -127 \<or> probe env = 85 \<Longrightarrow>
      0 \<le> tds_k s \<and> \<not> fst (readVoltage env TDS_PIN (tdsBuf s) (tdsPtr s) s) < 0 \<Longrightarrow>
         \<not> fst (getTDS env s) < 0"
    unfolding getTDS_value using 1 by (simp add: not_less)
  have 6: "(fst (getPH env s) < 0) = (fst (readVoltage env PH_PIN (phBuf s) (phPtr s) s) < 0)"
    unfolding getPH_value using c14 by (simp add: not_less)
  have 7: "wifi_connected env \<and> firebase_ready env \<Longrightarrow>
      (writes (trace (sendToFirebase env s)) = writes (trace s)) =
        (fst (getTemp env s) < 0 \<or> fst (getPH env s) < 0 \<or> fst (getTurbidity env s) < 0 \<or>
         fst (getTDS env s) < 0)"
    unfolding sendToFirebase_writes by simp
  have 5: "probe env = -127 \<or> probe env = 85 \<Longrightarrow> wifi_connected env \<and> firebase_ready env \<Longrightarrow>
         (writes (trace (sendToFirebase env s)) = writes (trace s)) =
           (fst (getPH env s) < 0 \<or> fst (getTurbidity env s) < 0 \<or> fst (getTDS env s) < 0)"
    using 7 1 by simp
  show ?thesis
    using 1 2 3 4 5 6 7 by blast
qed

theorem temperature_fault_default_witness:
  "probe probe_fault = -127 \<and> fst (getTemp probe_fault power_on) = 25 \<and>
   wifi_connected probe_fault \<and> firebase_ready probe_fault \<and>
   0 \<le> tds_k power_on \<and>
   \<not> fst (readVoltage probe_fault TDS_PIN (tdsBuf power_on) (tdsPtr power_on) power_on) < 0 \<and>
   \<not> fst (getTDS probe_fault power_on) < 0 \<and> \<not> fst (getPH probe_fault power_on) < 0 \<and>
   \<not> fst (getTurbidity probe_fault power_on) < 0 \<and>
   writes (trace (sendToFirebase probe_fault power_on)) \<noteq> writes (trace power_on)"
proof -
  have a: "probe probe_fault = -127" "wifi_connected probe_fault" "firebase_ready probe_fault"
    "0 \<le> tds_k power_on"
    by (simp_all add: probe_fault_def env_idle_def power_on_def)
  have b: "\<not> fst (readVoltage probe_fault TDS_PIN (tdsBuf power_on) (tdsPtr power_on) power_on) < 0"
    "\<not> fst (getPH probe_fault power_on) < 0" "\<not> fst (getTurbidity probe_fault power_on) < 0"
    by (simp_all add: probe_fault_def eval_defs cong: let_weak_cong)
  show ?thesis
    using a b temperature_fault_default [of probe_fault power_on]
    by simp
qed

text \<open>
  C3 as stated fails: at a probe reading of -5 degrees C, which is no sentinel, pH,
  turbidity, TDS and EC are all valid and the upload is skipped all the same, by the
  test \<open>temperature < 0\<close> of \<open>sendToFirebase\<close>.
\<close>

theorem cold_water_upload_skipped:
  "probe cold_env = -5 \<and> fst (getTemp cold_env power_on) = -5 \<and>
   wifi_connected cold_env \<and> firebase_ready cold_env \<and>
   0 \<le> fst (getPH cold_env power_on) \<and> 0 \<le> fst (getTurbidity cold_env power_on) \<and>
   0 \<le> fst (getTDS cold_env power_on) \<and> 0 \<le> fst (getEC cold_env power_on) \<and>
   writes (trace (sendToFirebase cold_env power_on)) = [] \<and>
   snd (last (trace (sendToFirebase cold_env power_on))) = SerialPrintln msg_sensor_error"
  by (simp add: cold_env_def eval_defs writes_def cong: let_weak_cong)

text \<open>
  C4.  When the raw ADC value is 0 or 4095, \<open>readVoltage\<close> returns the invalid sentinel
  \<open>-1\<close> at once and leaves the rolling buffer and the cursor as they were; so do
  \<open>getPH\<close>, \<open>getTurbidity\<close> and \<open>getTDS\<close> on their channels.  When the raw value lies
  strictly between the rails, the converted voltage \<open>raw * (3.3 / 4095)\<close> is written at
  the cursor and the cursor advances modulo 3.
\<close>

theorem adc_rail_fault:
  "(analogRead env pin = 0 \<or> analogRead env pin = 4095 \<longrightarrow>
      fst (readVoltage env pin buf ptr s) = -1 \<and>
      fst (snd (readVoltage env pin buf ptr s)) = buf \<and>
      fst (snd (snd (readVoltage env pin buf ptr s))) = ptr) \<and>
   (0 < analogRead env pin \<and> analogRead env pin < 4095 \<longrightarrow>
      fst (snd (readVoltage env pin buf ptr s)) =
        buf[ptr := real_of_int (analogRead env pin) * (3.3 / 4095)] \<and>
      fst (snd (snd (readVoltage env pin buf ptr s))) = (ptr + 1) mod 3) \<and>
   (analogRead env PH_PIN = 0 \<or> analogRead env PH_PIN = 4095 \<longrightarrow>
      fst (getPH env s) = -1 \<and> phBuf (snd (getPH env s)) = phBuf s \<and>
      phPtr (snd (getPH env s)) = phPtr s) \<and>
   (analogRead env TURB_PIN = 0 \<or> analogRead env TURB_PIN = 4095 \<longrightarrow>
      fst (getTurbidity env s) = -1 \<and> turbBuf (snd (getTurbidity env s)) = turbBuf s \<and>
      turbPtr (snd (getTurbidity env s)) = turbPtr s) \<and>
   (analogRead env TDS_PIN = 0 \<or> analogRead env TDS_PIN = 4095 \<longrightarrow>
      fst (getTDS env s) = -1 \<and> tdsBuf (snd (getTDS env s)) = tdsBuf s \<and>
      tdsPtr (snd (getTDS env s)) = tdsPtr s \<and> fst (getEC env s) = -1) \<and>
   (0 < analogRead env PH_PIN \<and> analogRead env PH_PIN < 4095 \<longrightarrow>
      phBuf (snd (getPH env s)) =
        (phBuf s)[phPtr s := real_of_int (analogRead env PH_PIN) * (3.3 / 4095)] \<and>
      phPtr (snd (getPH env s)) = (phPtr s + 1) mod 3) \<and>
   (0 < analogRead env TURB_PIN \<and> analogRead env TURB_PIN < 4095 \<longrightarrow>
      turbBuf (snd (getTurbidity env s)) =
        (turbBuf s)[turbPtr s := real_of_int (analogRead env TURB_PIN) * (3.3 / 4095)] \<and>
      turbPtr (snd (getTurbidity env s)) = (turbPtr s + 1) mod 3) \<and>
   (0 < analogRead env TDS_PIN \<and> analogRead env TDS_PIN < 4095 \<longrightarrow>
      tdsBuf (snd (getTDS env s)) =
        (tdsBuf s)[tdsPtr s := real_of_int (analogRead env TDS_PIN) * (3.3 / 4095)] \<and>
      tdsPtr (snd (getTDS env s)) = (tdsPtr s + 1) mod 3)"
proof (intro conjI)
  show "analogRead env pin = 0 \<or> analogRead env pin = 4095 \<longrightarrow>
      fst (readVoltage env pin buf ptr s) = -1 \<and>
      fst (snd (readVoltage env pin buf ptr s)) = buf \<and>
      fst (snd (snd (readVoltage env pin buf ptr s))) = ptr"
    by (simp add: readVoltage_def Let_def)
  show "0 < analogRead env pin \<and> analogRead env pin < 4095 \<longrightarrow>
      fst (snd (readVoltage env pin buf ptr s)) =
        buf[ptr := real_of_int (analogRead env pin) * (3.3 / 4095)] \<and>
      fst (snd (snd (readVoltage env pin buf ptr s))) = (ptr + 1) mod 3"
    by (simp add: readVoltage_def Let_def)
  show "analogRead env PH_PIN = 0 \<or> analogRead env PH_PIN = 4095 \<longrightarrow>
      fst (getPH env s) = -1 \<and> phBuf (snd (getPH env s)) = phBuf s \<and>
      phPtr (snd (getPH env s)) = phPtr s"
    by (auto simp add: getPH_def readVoltage_def Let_def)
  show "analogRead env TURB_PIN = 0 \<or> analogRead env TURB_PIN = 4095 \<longrightarrow>
      fst (getTurbidity env s) = -1 \<and> turbBuf (snd (getTurbidity env s)) = turbBuf s \<and>
      turbPtr (snd (getTurbidity env s)) = turbPtr s"
    by (auto simp add: getTurbidity_def readVoltage_def Let_def)
  show "analogRead env TDS_PIN = 0 \<or> analogRead env TDS_PIN = 4095 \<longrightarrow>
      fst (getTDS env s) = -1 \<and> tdsBuf (snd (getTDS env s)) = tdsBuf s \<and>
      tdsPtr (snd (getTDS env s)) = tdsPtr s \<and> fst (getEC env s) = -1"
    by (auto simp add: getEC_value getTDS_def readVoltage_def Let_def)
  show "0 < analogRead env PH_PIN \<and> analogRead env PH_PIN < 4095 \<longrightarrow>
      phBuf (snd (getPH env s)) =
        (phBuf s)[phPtr s := real_of_int (analogRead env PH_PIN) * (3.3 / 4095)] \<and>
      phPtr (snd (getPH env s)) = (phPtr s + 1) mod 3"
    by (auto simp add: getPH_def readVoltage_def getTemp_def Let_def split_beta)
  show "0 < analogRead env TURB_PIN \<and> analogRead env TURB_PIN < 4095 \<longrightarrow>
      turbBuf (snd (getTurbidity env s)) =
        (turbBuf s)[turbPtr s := real_of_int (analogRead env TURB_PIN) * (3.3 / 4095)] \<and>
      turbPtr (snd (getTurbidity env s)) = (turbPtr s + 1) mod 3"
    by (auto simp add: getTurbidity_def readVoltage_def Let_def split_beta)
  show "0 < analogRead env TDS_PIN \<and> analogRead env TDS_PIN < 4095 \<longrightarrow>
      tdsBuf (snd (getTDS env s)) =
        (tdsBuf s)[tdsPtr s := real_of_int (analogRead env TDS_PIN) * (3.3 / 4095)] \<and>
      tdsPtr (snd (getTDS env s)) = (tdsPtr s + 1) mod 3"
    by (auto simp add: getTDS_def readVoltage_def getTemp_def Let_def split_beta)
qed

theorem adc_rail_fault_witness:
  "analogRead rails PH_PIN = 0 \<and> analogRead rails TURB_PIN = 4095 \<and>
   0 < analogRead rails TDS_PIN \<and> analogRead rails TDS_PIN < 4095 \<and>
   fst (getPH rails power_on) = -1 \<and> phBuf (snd (getPH rails power_on)) = [0, 0, 0] \<and>
   phPtr (snd (getPH rails power_on)) = 0 \<and>
   fst (getTurbidity rails power_on) = -1 \<and> turbBuf (snd (getTurbidity rails power_on)) = [0, 0, 0] \<and>
   turbPtr (snd (getTurbidity rails power_on)) = 0 \<and>
   tdsBuf (snd (getTDS rails power_on)) = [2047 * (3.3 / 4095), 0, 0] \<and>
   tdsPtr (snd (getTDS rails power_on)) = 1 \<and>
   fst (readVoltage rails PH_PIN [1, 2, 3] 2 power_on) = -1 \<and>
   fst (snd (readVoltage rails TDS_PIN [1, 2, 3] 2 power_on)) = [1, 2, 2047 * (3.3 / 4095)] \<and>
   fst (snd (snd (readVoltage rails TDS_PIN [1, 2, 3] 2 power_on))) = 0"
proof -
  have a: "analogRead rails PH_PIN = 0" "analogRead rails TURB_PIN = 4095" "analogRead rails TDS_PIN = 2047"
    by (simp_all add: rails_def env_idle_def)
  have b: "phBuf power_on = [0, 0, 0]" "phPtr power_on = 0" "turbBuf power_on = [0, 0, 0]"
    "turbPtr power_on = 0" "tdsBuf power_on = [0, 0, 0]" "tdsPtr power_on = 0"
    by (simp_all add: power_on_def)
  show ?thesis
    using a b adc_rail_fault [of rails PH_PIN "[1, 2, 3]" 2 power_on]
      adc_rail_fault [of rails TDS_PIN "[1, 2, 3]" 2 power_on]
    by simp
qed

text \<open>
  C5.  For every EC query, EC is twice the TDS value when TDS is valid (not negative),
  and EC is invalid (negative, the sentinel \<open>-1\<close>) exactly when TDS is invalid; the query
  leaves the device as the TDS query does.  The same holds for the \<open>ec\<close> field of a
  payload handed to the transport.
\<close>

theorem ec_twice_tds:
  "(fst (getEC env s) < 0) = (fst (getTDS env s) < 0) \<and>
   (\<not> fst (getTDS env s) < 0 \<longrightarrow> fst (getEC env s) = 2 * fst (getTDS env s)) \<and>
   (fst (getTDS env s) < 0 \<longrightarrow> fst (getEC env s) = -1) \<and>
   snd (getEC env s) = snd (getTDS env s) \<and>
   (drop (length (writes (trace s))) (writes (trace (sendToFirebase env s))) = [(t, SetJSON p d ok)] \<longrightarrow>
      d_field d = fst (getTDS env s) \<and> \<not> d_field d < 0 \<and> ec_field d = 2 * d_field d)"
proof -
  have "drop (length (writes (trace s))) (writes (trace (sendToFirebase env s))) = [(t, SetJSON p d ok)] \<longrightarrow>
      d_field d = fst (getTDS env s) \<and> \<not> d_field d < 0 \<and> ec_field d = 2 * d_field d"
    unfolding sendToFirebase_writes by (auto split: if_splits)
  moreover have "(fst (getEC env s) < 0) = (fst (getTDS env s) < 0)"
    "\<not> fst (getTDS env s) < 0 \<longrightarrow> fst (getEC env s) = 2 * fst (getTDS env s)"
    "fst (getTDS env s) < 0 \<longrightarrow> fst (getEC env s) = -1"
    "snd (getEC env s) = snd (getTDS env s)"
    by (simp_all add: getEC_value)
  ultimately show ?thesis
    by blast
qed

theorem ec_twice_tds_witness:
  "\<not> fst (getTDS env_idle power_on) < 0 \<and>
   fst (getEC env_idle power_on) = 2 * fst (getTDS env_idle power_on) \<and>
   fst (getTDS tds_rail power_on) < 0 \<and> fst (getEC tds_rail power_on) = -1 \<and>
   drop (length (writes (trace power_on))) (writes (trace (sendToFirebase env_idle power_on))) =
     [(0, SetJSON 0 \<lparr> t_field = 25, p_field = fst (getPH env_idle power_on),
         n_field = fst (getTurbidity env_idle power_on), d_field = fst (getTDS env_idle power_on),
         ec_field = fst (getTDS env_idle power_on) * 2 \<rparr> True)]"
proof -
  have a: "\<not> fst (getTDS env_idle power_on) < 0" "\<not> fst (getPH env_idle power_on) < 0"
    "\<not> fst (getTurbidity env_idle power_on) < 0" "fst (getTemp env_idle power_on) = 25"
    "fst (getTDS tds_rail power_on) < 0"
    by (simp_all add: tds_rail_def eval_defs cong: let_weak_cong)
  have b: "wifi_connected env_idle" "firebase_ready env_idle" "setjson_ok env_idle"
    "clock power_on = 0" "trace power_on = []"
    by (simp_all add: env_idle_def power_on_def)
  have w: "drop (length (writes (trace power_on))) (writes (trace (sendToFirebase env_idle power_on))) =
     [(0, SetJSON 0 \<lparr> t_field = 25, p_field = fst (getPH env_idle power_on),
         n_field = fst (getTurbidity env_idle power_on), d_field = fst (getTDS env_idle power_on),
         ec_field = fst (getTDS env_idle power_on) * 2 \<rparr> True)]"
    unfolding sendToFirebase_writes using a b by simp
  show ?thesis
    using a w ec_twice_tds [of env_idle power_on 0 0
        "\<lparr> t_field = 25, p_field = fst (getPH env_idle power_on),
           n_field = fst (getTurbidity env_idle power_on), d_field = fst (getTDS env_idle power_on),
           ec_field = fst (getTDS env_idle power_on) * 2 \<rparr>" True]
      ec_twice_tds [of tds_rail power_on]
    by simp
qed

text \<open>
  C6.  Three consecutive valid samples \<open>v1, v2, v3\<close> pushed into the zero-initialised
  rolling buffer give the means \<open>v1/3\<close>, \<open>(v1+v2)/3\<close> and \<open>(v1+v2+v3)/3\<close>: the slots
  not yet written count as 0.  The three channels start from the same zero buffer.
\<close>

theorem rolling_mean_warmup:
  "0 < analogRead e1 PH_PIN \<and> analogRead e1 PH_PIN < 4095 \<and>
   0 < analogRead e2 PH_PIN \<and> analogRead e2 PH_PIN < 4095 \<and>
   0 < analogRead e3 PH_PIN \<and> analogRead e3 PH_PIN < 4095 \<longrightarrow>
   (let v1 = real_of_int (analogRead e1 PH_PIN) * (3.3 / 4095);
        v2 = real_of_int (analogRead e2 PH_PIN) * (3.3 / 4095);
        v3 = real_of_int (analogRead e3 PH_PIN) * (3.3 / 4095);
        (m1, b1, p1, s1) = readVoltage e1 PH_PIN (phBuf power_on) (phPtr power_on) power_on;
        (m2, b2, p2, s2) = readVoltage e2 PH_PIN b1 p1 s1;
        (m3, b3, p3, s3) = readVoltage e3 PH_PIN b2 p2 s2
    in m1 = v1 / 3 \<and> m2 = (v1 + v2) / 3 \<and> m3 = (v1 + v2 + v3) / 3 \<and>
       b3 = [v1, v2, v3] \<and> p3 = 0) \<and>
   turbBuf power_on = phBuf power_on \<and> tdsBuf power_on = phBuf power_on \<and>
   turbPtr power_on = phPtr power_on \<and> tdsPtr power_on = phPtr power_on"
  by (simp add: readVoltage_def Let_def sum3_def power_on_def)

theorem rolling_mean_warmup_witness:
  "0 < analogRead env_idle PH_PIN \<and> analogRead env_idle PH_PIN < 4095 \<and>
   fst (readVoltage env_idle PH_PIN (phBuf power_on) (phPtr power_on) power_on) = 2047 * (3.3 / 4095) / 3 \<and>
   fst (readVoltage env_idle PH_PIN [2047 * (3.3 / 4095), 0, 0] 1 power_on) =
     (2047 * (3.3 / 4095) + 2047 * (3.3 / 4095)) / 3 \<and>
   fst (readVoltage env_idle PH_PIN [2047 * (3.3 / 4095), 2047 * (3.3 / 4095), 0] 2 power_on) =
     (2047 * (3.3 / 4095) + 2047 * (3.3 / 4095) + 2047 * (3.3 / 4095)) / 3"
proof -
  have a: "analogRead env_idle PH_PIN = 2047"
    by (simp add: env_idle_def)
  have b: "phBuf power_on = [0, 0, 0]" "phPtr power_on = 0"
    by (simp_all add: power_on_def)
  show ?thesis
    using rolling_mean_warmup [of env_idle env_idle env_idle]
    by (simp add: a b readVoltage_def Let_def sum3_def)
qed

text \<open>
  C7.  The pH output of a valid reading is
  \<open>constrain (slope * mean_v + intercept + 0.0198 * (temperature - 25)) 0 14\<close> and lies in
  \<open>[0, 14]\<close>; the turbidity output of a valid reading is
  \<open>constrain (slope * mean_v + intercept) 0 150\<close> and lies in \<open>[0, 150]\<close>.  A reading is
  valid when the mean voltage returned by \<open>readVoltage\<close> is not negative, which is the
  case whenever the raw value lies strictly between the rails and the buffer holds
  three non-negative voltages; otherwise the output is the sentinel \<open>-1\<close>.
\<close>

theorem outputs_clamped:
  "(fst (readVoltage env PH_PIN (phBuf s) (phPtr s) s) < 0 \<longrightarrow> fst (getPH env s) = -1) \<and>
   (\<not> fst (readVoltage env PH_PIN (phBuf s) (phPtr s) s) < 0 \<longrightarrow>
      fst (getPH env s) =
        constrain (ph_slope s * fst (readVoltage env PH_PIN (phBuf s) (phPtr s) s) + ph_intercept s +
          0.0198 * (fst (getTemp env s) - 25)) 0 14 \<and>
      0 \<le> fst (getPH env s) \<and> fst (getPH env s) \<le> 14) \<and>
   (fst (readVoltage env TURB_PIN (turbBuf s) (turbPtr s) s) < 0 \<longrightarrow> fst (getTurbidity env s) = -1) \<and>
   (\<not> fst (readVoltage env TURB_PIN (turbBuf s) (turbPtr s) s) < 0 \<longrightarrow>
      fst (getTurbidity env s) =
        constrain (turb_slope s * fst (readVoltage env TURB_PIN (turbBuf s) (turbPtr s) s) +
          turb_intercept s) 0 150 \<and>
      0 \<le> fst (getTurbidity env s) \<and> fst (getTurbidity env s) \<le> 150) \<and>
   (0 < analogRead env PH_PIN \<and> analogRead env PH_PIN < 4095 \<and> length (phBuf s) = 3 \<and>
    (\<forall>x\<in>set (phBuf s). 0 \<le> x) \<longrightarrow> 0 \<le> fst (getPH env s) \<and> fst (getPH env s) \<le> 14) \<and>
   (0 < analogRead env TURB_PIN \<and> analogRead env TURB_PIN < 4095 \<and> length (turbBuf s) = 3 \<and>
    (\<forall>x\<in>set (turbBuf s). 0 \<le> x) \<longrightarrow>
      0 \<le> fst (getTurbidity env s) \<and> fst (getTurbidity env s) \<le> 150)"
proof -
  have c14: "0 \<le> constrain x 0 14 \<and> constrain x 0 14 \<le> 14" for x
    by (rule constrain_bounds) simp
  have c150: "0 \<le> constrain x 0 150 \<and> constrain x 0 150 \<le> 150" for x
    by (rule constrain_bounds) simp
  have ph: "0 < analogRead env PH_PIN \<and> analogRead env PH_PIN < 4095 \<and> length (phBuf s) = 3 \<and>
    (\<forall>x\<in>set (phBuf s). 0 \<le> x) \<longrightarrow> \<not> fst (readVoltage env PH_PIN (phBuf s) (phPtr s) s) < 0"
    using readVoltage_nonneg [of env PH_PIN "phBuf s" "phPtr s" s] by auto
  have tb: "0 < analogRead env TURB_PIN \<and> analogRead env TURB_PIN < 4095 \<and> length (turbBuf s) = 3 \<and>
    (\<forall>x\<in>set (turbBuf s). 0 \<le> x) \<longrightarrow> \<not> fst (readVoltage env TURB_PIN (turbBuf s) (turbPtr s) s) < 0"
    using readVoltage_nonneg [of env TURB_PIN "turbBuf s" "turbPtr s" s] by auto
  show ?thesis
    unfolding getPH_value getTurbidity_value using c14 c150 ph tb by simp
qed

theorem outputs_clamped_witness:
  "0 < analogRead env_idle PH_PIN \<and> analogRead env_idle PH_PIN < 4095 \<and>
   0 < analogRead env_idle TURB_PIN \<and> analogRead env_idle TURB_PIN < 4095 \<and>
   phBuf steep = [0, 0, 0] \<and> turbBuf steep = [0, 0, 0] \<and>
   fst (getPH env_idle steep) = 14 \<and> fst (getTurbidity env_idle steep) = 150 \<and>
   0 \<le> fst (getPH env_idle power_on) \<and> fst (getPH env_idle power_on) \<le> 14 \<and>
   0 \<le> fst (getTurbidity env_idle power_on) \<and> fst (getTurbidity env_idle power_on) \<le> 150 \<and>
   fst (readVoltage rails PH_PIN (phBuf power_on) (phPtr power_on) power_on) < 0 \<and>
   fst (getPH rails power_on) = -1"
proof -
  have a: "analogRead env_idle PH_PIN = 2047" "analogRead env_idle TURB_PIN = 2047"
    "phBuf steep = [0, 0, 0]" "turbBuf steep = [0, 0, 0]"
    "phBuf power_on = [0, 0, 0]" "turbBuf power_on = [0, 0, 0]"
    by (simp_all add: env_idle_def steep_def power_on_def)
  have b: "fst (getPH env_idle steep) = 14" "fst (getTurbidity env_idle steep) = 150"
    by (simp_all add: steep_def eval_defs cong: let_weak_cong)
  have c: "fst (readVoltage rails PH_PIN (phBuf power_on) (phPtr power_on) power_on) < 0"
    by (simp add: rails_def eval_defs cong: let_weak_cong)
  show ?thesis
    using a b c outputs_clamped [of env_idle steep] outputs_clamped [of env_idle power_on]
      outputs_clamped [of rails power_on]
    by simp
qed

text \<open>
  C8.  For every accepted Up or Down press the menu index wraps circularly: Up from
  index 0 gives 6, Down from index 6 gives 0, otherwise the index moves by one; and an
  index in \<open>[0, 7)\<close> stays in \<open>[0, 7)\<close> after \<open>handleMenu\<close>, after an iteration of
  \<open>loop\<close> and after any run.  A press is accepted when at least 200 ms have passed
  since the last accepted press; Down is looked at only when Up is not pressed.
\<close>

theorem menu_navigation_wraps:
  "(\<not> millis s - lastButtonPress s < 200 \<and> \<not> btn_up env \<longrightarrow>
      currentMenuItem (handleMenu env s) =
        (if currentMenuItem s > 0 then currentMenuItem s - 1 else menuItemsCount - 1)) \<and>
   (\<not> millis s - lastButtonPress s < 200 \<and> btn_up env \<and> \<not> btn_down env \<longrightarrow>
      currentMenuItem (handleMenu env s) =
        (if currentMenuItem s < menuItemsCount - 1 then currentMenuItem s + 1 else 0)) \<and>
   (\<not> millis s - lastButtonPress s < 200 \<and> \<not> btn_up env \<and> currentMenuItem s = 0 \<longrightarrow>
      currentMenuItem (handleMenu env s) = 6) \<and>
   (\<not> millis s - lastButtonPress s < 200 \<and> btn_up env \<and> \<not> btn_down env \<and> currentMenuItem s = 6 \<longrightarrow>
      currentMenuItem (handleMenu env s) = 0) \<and>
   (0 \<le> currentMenuItem s \<and> currentMenuItem s < 7 \<longrightarrow>
      0 \<le> currentMenuItem (handleMenu env s) \<and> currentMenuItem (handleMenu env s) < 7 \<and>
      0 \<le> currentMenuItem (loop env s) \<and> currentMenuItem (loop env s) < 7 \<and>
      0 \<le> currentMenuItem (run ticks s) \<and> currentMenuItem (run ticks s) < 7)"
  using handleMenu_up [of s env] handleMenu_down [of s env] handleMenu_index [of s env]
    loop_index [of s env] run_index [of s ticks]
  by (simp add: menuItemsCount_def)

theorem menu_navigation_wraps_witness:
  "\<not> millis (pass 3000 power_on) - lastButtonPress (pass 3000 power_on) < 200 \<and>
   \<not> btn_up press_up \<and> currentMenuItem (pass 3000 power_on) = 0 \<and>
   currentMenuItem (handleMenu press_up (pass 3000 power_on)) = 6 \<and>
   \<not> millis at_send_item - lastButtonPress at_send_item < 200 \<and>
   btn_up press_down \<and> \<not> btn_down press_down \<and> currentMenuItem at_send_item = 6 \<and>
   currentMenuItem (handleMenu press_down at_send_item) = 0 \<and>
   0 \<le> currentMenuItem (run sleepy_ticks power_on) \<and> currentMenuItem (run sleepy_ticks power_on) < 7"
proof -
  have a: "clock (pass 3000 power_on) = 3000" "lastButtonPress (pass 3000 power_on) = 0"
    "currentMenuItem (pass 3000 power_on) = 0" "currentMenuItem power_on = 0"
    by (simp_all add: power_on_def)
  have b: "clock at_send_item = 3300" "lastButtonPress at_send_item = 3000"
    "currentMenuItem at_send_item = 6"
    by (simp_all add: at_send_item_def eval_defs cong: let_weak_cong)
  have c: "\<not> btn_up press_up" "btn_up press_down" "\<not> btn_down press_down"
    by (simp_all add: press_up_def press_down_def env_idle_def)
  show ?thesis
    using a b c menu_navigation_wraps [of "pass 3000 power_on" press_up "[]"]
      menu_navigation_wraps [of at_send_item press_down "[]"]
      menu_navigation_wraps [of power_on env_idle sleepy_ticks]
    by simp
qed

text \<open>
  C9.  After every accepted Select on item 6 (Send Data) the three LCD operations that
  follow the call of \<open>sendToFirebase\<close> are clear, print "Data sent!", hold for 1 s,
  whatever the upload did: also when nothing was written because WiFi or Firebase was
  not ready, when nothing was written because a value was negative, and when the
  transport write was made and failed.
\<close>

theorem manual_send_always_confirms:
  "\<not> millis s - lastButtonPress s < 200 \<and> btn_up env \<and> btn_down env \<and> \<not> btn_select env \<and>
   currentMenuItem s = 6 \<longrightarrow>
     take 3 (drop (length (trace (sendToFirebase env (emit (LcdPrint ''Sending data...'') (emit LcdClear s)))))
       (trace (handleMenu env s))) =
       [(clock s, LcdClear), (clock s, LcdPrint ''Data sent!''), (clock s, Delay 1000)] \<and>
     (\<not> wifi_connected env \<or> \<not> firebase_ready env \<longrightarrow>
        writes (trace (handleMenu env s)) = writes (trace s)) \<and>
     (fst (getTemp env s) < 0 \<or> fst (getPH env s) < 0 \<or> fst (getTurbidity env s) < 0 \<or>
      fst (getTDS env s) < 0 \<longrightarrow>
        writes (trace (handleMenu env s)) = writes (trace s)) \<and>
     (wifi_connected env \<and> firebase_ready env \<and>
      \<not> (fst (getTemp env s) < 0 \<or> fst (getPH env s) < 0 \<or> fst (getTurbidity env s) < 0 \<or>
         fst (getTDS env s) < 0) \<and> \<not> setjson_ok env \<longrightarrow>
        writes (trace (handleMenu env s)) = writes (trace s) @
          [(clock s, SetJSON (clock s div 1000)
              \<lparr> t_field = fst (getTemp env s), p_field = fst (getPH env s),
                n_field = fst (getTurbidity env s), d_field = fst (getTDS env s),
                ec_field = fst (getTDS env s) * 2 \<rparr> False)])"
proof (intro impI)
  assume h: "\<not> millis s - lastButtonPress s < 200 \<and> btn_up env \<and> btn_down env \<and> \<not> btn_select env \<and>
    currentMenuItem s = 6"
  then have hm: "handleMenu env s = (selectItem env s)\<lparr>lastButtonPress := millis (selectItem env s)\<rparr>"
    using handleMenu_select [of s env] by blast
  have tr: "trace (handleMenu env s) = trace (selectItem env s)"
    by (simp add: hm)
  have w: "writes (trace (handleMenu env s)) = writes (trace (sendToFirebase env s))"
    using h by (simp add: tr selectItem_send_writes)
  have shown: "take 3 (drop (length (trace (sendToFirebase env (emit (LcdPrint ''Sending data...'') (emit LcdClear s)))))
       (trace (handleMenu env s))) =
       [(clock s, LcdClear), (clock s, LcdPrint ''Data sent!''), (clock s, Delay 1000)]"
    unfolding tr using h selectItem_send_shown [of s env] by blast
  show "take 3 (drop (length (trace (sendToFirebase env (emit (LcdPrint ''Sending data...'') (emit LcdClear s)))))
       (trace (handleMenu env s))) =
       [(clock s, LcdClear), (clock s, LcdPrint ''Data sent!''), (clock s, Delay 1000)] \<and>
     (\<not> wifi_connected env \<or> \<not> firebase_ready env \<longrightarrow>
        writes (trace (handleMenu env s)) = writes (trace s)) \<and>
     (fst (getTemp env s) < 0 \<or> fst (getPH env s) < 0 \<or> fst (getTurbidity env s) < 0 \<or>
      fst (getTDS env s) < 0 \<longrightarrow>
        writes (trace (handleMenu env s)) = writes (trace s)) \<and>
     (wifi_connected env \<and> firebase_ready env \<and>
      \<not> (fst (getTemp env s) < 0 \<or> fst (getPH env s) < 0 \<or> fst (getTurbidity env s) < 0 \<or>
         fst (getTDS env s) < 0) \<and> \<not> setjson_ok env \<longrightarrow>
        writes (trace (handleMenu env s)) = writes (trace s) @
          [(clock s, SetJSON (clock s div 1000)
              \<lparr> t_field = fst (getTemp env s), p_field = fst (getPH env s),
                n_field = fst (getTurbidity env s), d_field = fst (getTDS env s),
                ec_field = fst (getTDS env s) * 2 \<rparr> False)])"
    using shown unfolding w sendToFirebase_writes by simp
qed

theorem manual_send_always_confirms_witness:
  "\<not> millis at_send_item - lastButtonPress at_send_item < 200 \<and> currentMenuItem at_send_item = 6 \<and>
   \<not> wifi_connected no_wifi \<and>
   take 3 (drop (length (trace (sendToFirebase no_wifi
       (emit (LcdPrint ''Sending data...'') (emit LcdClear at_send_item)))))
     (trace (handleMenu no_wifi at_send_item))) =
     [(3300, LcdClear), (3300, LcdPrint ''Data sent!''), (3300, Delay 1000)] \<and>
   writes (trace (handleMenu no_wifi at_send_item)) = [] \<and>
   fst (getTDS bad_sensor at_send_item) < 0 \<and>
   take 3 (drop (length (trace (sendToFirebase bad_sensor
       (emit (LcdPrint ''Sending data...'') (emit LcdClear at_send_item)))))
     (trace (handleMenu bad_sensor at_send_item))) =
     [(3300, LcdClear), (3300, LcdPrint ''Data sent!''), (3300, Delay 1000)] \<and>
   writes (trace (handleMenu bad_sensor at_send_item)) = [] \<and>
   \<not> setjson_ok write_fails \<and>
   take 3 (drop (length (trace (sendToFirebase write_fails
       (emit (LcdPrint ''Sending data...'') (emit LcdClear at_send_item)))))
     (trace (handleMenu write_fails at_send_item))) =
     [(3300, LcdClear), (3300, LcdPrint ''Data sent!''), (3300, Delay 1000)] \<and>
   length (writes (trace (handleMenu write_fails at_send_item))) = 1"
proof -
  have st: "clock at_send_item = 3300" "lastButtonPress at_send_item = 3000"
    "currentMenuItem at_send_item = 6" "writes (trace at_send_item) = []"
    by (simp_all add: at_send_item_def eval_defs cong: let_weak_cong)
  have env: "btn_up no_wifi" "btn_down no_wifi" "\<not> btn_select no_wifi" "\<not> wifi_connected no_wifi"
    "btn_up bad_sensor" "btn_down bad_sensor" "\<not> btn_select bad_sensor"
    "btn_up write_fails" "btn_down write_fails" "\<not> btn_select write_fails"
    "wifi_connected write_fails" "firebase_ready write_fails" "\<not> setjson_ok write_fails"
    by (simp_all add: no_wifi_def bad_sensor_def write_fails_def press_select_def env_idle_def)
  have bad: "fst (getTDS bad_sensor at_send_item) < 0"
    by (simp add: getTDS_def readVoltage_def bad_sensor_def Let_def)
  have ok: "\<not> (fst (getTemp write_fails at_send_item) < 0 \<or> fst (getPH write_fails at_send_item) < 0 \<or>
      fst (getTurbidity write_fails at_send_item) < 0 \<or> fst (getTDS write_fails at_send_item) < 0)"
    by (simp add: at_send_item_def write_fails_def eval_defs cong: let_weak_cong)
  show ?thesis
    using st env bad ok manual_send_always_confirms [of at_send_item no_wifi]
      manual_send_always_confirms [of at_send_item bad_sensor]
      manual_send_always_confirms [of at_send_item write_fails]
    by simp
qed

text \<open>
  C10.  An accepted Select on item 6 calls \<open>sendToFirebase\<close> once, whether power-save is
  enabled or not: the attempt is logged, the transport writes are those of
  \<open>sendToFirebase\<close>, and power-save is left as it was.  The scheduled check, in the same
  state, makes no attempt when power-save is enabled.
\<close>

theorem manual_send_ignores_power_save:
  "(\<not> millis s - lastButtonPress s < 200 \<and> btn_up env \<and> btn_down env \<and> \<not> btn_select env \<and>
    currentMenuItem s = 6 \<longrightarrow>
      attempts (trace (handleMenu env s)) = attempts (trace s) + 1 \<and>
      writes (trace (handleMenu env s)) = writes (trace (sendToFirebase env s)) \<and>
      powerSaveMode (handleMenu env s) = powerSaveMode s) \<and>
   (powerSaveMode s \<longrightarrow> attempts (trace (autoSend env s)) = attempts (trace s))"
proof (intro conjI impI)
  assume h: "\<not> millis s - lastButtonPress s < 200 \<and> btn_up env \<and> btn_down env \<and> \<not> btn_select env \<and>
    currentMenuItem s = 6"
  then have hm: "handleMenu env s = (selectItem env s)\<lparr>lastButtonPress := millis (selectItem env s)\<rparr>"
    using handleMenu_select [of s env] by blast
  show "attempts (trace (handleMenu env s)) = attempts (trace s) + 1"
    using h by (simp add: hm selectItem_attempts)
  show "writes (trace (handleMenu env s)) = writes (trace (sendToFirebase env s))"
    using h by (simp add: hm selectItem_send_writes)
  show "powerSaveMode (handleMenu env s) = powerSaveMode s"
    using h by (simp add: hm selectItem_powerSave)
next
  assume "powerSaveMode s"
  then show "attempts (trace (autoSend env s)) = attempts (trace s)"
    by (simp add: autoSend_def Let_def)
qed

theorem manual_send_ignores_power_save_witness:
  "powerSaveMode power_save_at_send \<and> currentMenuItem power_save_at_send = 6 \<and>
   \<not> millis power_save_at_send - lastButtonPress power_save_at_send < 200 \<and>
   attempts (trace (handleMenu press_select power_save_at_send)) = attempts (trace power_save_at_send) + 1 \<and>
   length (writes (trace (handleMenu press_select power_save_at_send))) = 1 \<and>
   attempts (trace (autoSend press_select power_save_at_send)) = attempts (trace power_save_at_send)"
proof -
  have st: "clock power_save_at_send = 5200" "lastButtonPress power_save_at_send = 4900"
    "currentMenuItem power_save_at_send = 6" "powerSaveMode power_save_at_send"
    "writes (trace power_save_at_send) = []"
    by (simp_all add: power_save_at_send_def eval_defs cong: let_weak_cong)
  have env: "btn_up press_select" "btn_down press_select" "\<not> btn_select press_select"
    "wifi_connected press_select" "firebase_ready press_select"
    by (simp_all add: press_select_def env_idle_def)
  have ok: "\<not> (fst (getTemp press_select power_save_at_send) < 0 \<or> fst (getPH press_select power_save_at_send) < 0 \<or>
      fst (getTurbidity press_select power_save_at_send) < 0 \<or> fst (getTDS press_select power_save_at_send) < 0)"
    by (simp add: power_save_at_send_def eval_defs cong: let_weak_cong)
  show ?thesis
    using st env ok manual_send_ignores_power_save [of power_save_at_send press_select]
    by (simp add: sendToFirebase_writes)
qed

end
